theory Spec2Isabelle
  imports Main
begin

section \<open>Strings\<close>

text \<open>
  A TypeScript string is modelled as a \<^typ>\<open>string\<close>, one \<^typ>\<open>char\<close> for each code
  unit; the model covers the code units U+0000 to U+00FF. \<open>String.prototype.trim\<close>
  removes white space and line terminators from both ends; in that range these are
  TAB, LF, VT, FF, CR, SPACE and NO-BREAK SPACE.
\<close>

definition isWhiteSpace :: "char \<Rightarrow> bool" where
  "isWhiteSpace c \<longleftrightarrow> (of_char c :: nat) \<in> {9, 10, 11, 12, 13, 32, 160}"

definition trim :: "string \<Rightarrow> string" where
  "trim s = rev (dropWhile isWhiteSpace (rev (dropWhile isWhiteSpace s)))"

definition startsWith :: "string \<Rightarrow> string \<Rightarrow> bool" where
  "startsWith s p \<longleftrightarrow> take (length p) s = p"

definition endsWith :: "string \<Rightarrow> string \<Rightarrow> bool" where
  "endsWith s p \<longleftrightarrow> length p \<le> length s \<and> drop (length s - length p) s = p"

fun includesStr :: "string \<Rightarrow> string \<Rightarrow> bool" where
  "includesStr [] p = (p = [])"
| "includesStr (c # cs) p = (startsWith (c # cs) p \<or> includesStr cs p)"

text \<open>\<open>toLowerCase\<close> on the modelled range: A to Z, and the Latin-1 capitals.\<close>

definition toLowerChar :: "char \<Rightarrow> char" where
  "toLowerChar c =
     (let n = (of_char c :: nat)
      in if (65 \<le> n \<and> n \<le> 90) \<or> (192 \<le> n \<and> n \<le> 222 \<and> n \<noteq> 215)
         then char_of (n + 32) else c)"

definition toLowerCase :: "string \<Rightarrow> string" where
  "toLowerCase s = map toLowerChar s"

text \<open>Decimal rendering of an integer, as a template literal prints it.\<close>

fun digits :: "nat \<Rightarrow> string" where
  "digits n =
     (if n < 10 then [''0123456789'' ! n]
      else digits (n div 10) @ [''0123456789'' ! (n mod 10)])"

declare digits.simps [simp del]

definition numberToString :: "int \<Rightarrow> string" where
  "numberToString i = (if i < 0 then CHR ''-'' # digits (nat (- i)) else digits (nat i))"

section \<open>utils/validation.ts\<close>

record ValidationResult =
  valid :: bool
  error :: "string option"

definition invalid :: "string \<Rightarrow> ValidationResult" where
  "invalid msg = \<lparr>valid = False, error = Some msg\<rparr>"

definition ok :: ValidationResult where
  "ok = \<lparr>valid = True, error = None\<rparr>"

text \<open>The character class \<open>[a-zA-Z0-9._/-]\<close> of the branch pattern.\<close>

definition branchChar :: "char \<Rightarrow> bool" where
  "branchChar c \<longleftrightarrow>
     c \<in> set (''abcdefghijklmnopqrstuvwxyz'' @ ''ABCDEFGHIJKLMNOPQRSTUVWXYZ''
              @ ''0123456789'' @ ''._/-'')"

text \<open>The character class \<open>[a-zA-Z0-9._-]\<close> of the repository pattern.\<close>

definition repoChar :: "char \<Rightarrow> bool" where
  "repoChar c \<longleftrightarrow>
     c \<in> set (''abcdefghijklmnopqrstuvwxyz'' @ ''ABCDEFGHIJKLMNOPQRSTUVWXYZ''
              @ ''0123456789'' @ ''._-'')"

text \<open>\<open>/^[...]+$/.test(s)\<close>: a non-empty string made of the class only.\<close>

definition testPattern :: "(char \<Rightarrow> bool) \<Rightarrow> string \<Rightarrow> bool" where
  "testPattern cls s \<longleftrightarrow> s \<noteq> [] \<and> list_all cls s"

definition reservedNames :: "string list" where
  "reservedNames = [''.git'', ''HEAD'', ''refs'']"

definition validateBranchName :: "string \<Rightarrow> ValidationResult" where
  "validateBranchName branchName =
     (if branchName = [] \<or> length (trim branchName) = 0
      then invalid ''Branch name cannot be empty''
      else let trimmed = trim branchName in
        if length trimmed > 255
        then invalid ''Branch name exceeds maximum length of 255 characters''
        else if startsWith trimmed ''.'' \<or> endsWith trimmed ''.''
              \<or> startsWith trimmed ''/'' \<or> endsWith trimmed ''/''
              \<or> startsWith trimmed [CHR 0x5C] \<or> endsWith trimmed [CHR 0x5C]
        then invalid (''Branch name cannot start or end with . / or '' @ [CHR 0x5C])
        else if includesStr trimmed ''..''
        then invalid ''Branch name cannot contain consecutive dots (..)''
        else if \<not> testPattern branchChar trimmed
        then invalid (''Branch name contains invalid characters. ''
                      @ ''Only alphanumeric, -, _, ., and / are allowed'')
        else if toLowerCase trimmed \<in> set reservedNames
        then invalid (''Branch name '' @ [CHR 0x27] @ trimmed @ [CHR 0x27] @ '' is reserved'')
        else ok)"

definition generateBranchName :: "int option \<Rightarrow> string \<Rightarrow> string" where
  "generateBranchName issueNumber baseName =
     (case issueNumber of
        None \<Rightarrow> baseName
      | Some n \<Rightarrow> if n > 0 then numberToString n @ ''-'' @ baseName else baseName)"

definition validateRepoName :: "string \<Rightarrow> ValidationResult" where
  "validateRepoName repoName =
     (if repoName = [] \<or> length (trim repoName) = 0
      then invalid ''Repository name cannot be empty''
      else let trimmed = trim repoName in
        if length trimmed > 100
        then invalid ''Repository name exceeds maximum length of 100 characters''
        else if startsWith trimmed ''.'' \<or> endsWith trimmed ''.''
        then invalid ''Repository name cannot start or end with a dot''
        else if includesStr trimmed ''..''
        then invalid ''Repository name cannot contain consecutive dots (..)''
        else if \<not> testPattern repoChar trimmed
        then invalid (''Repository name contains invalid characters. ''
                      @ ''Only alphanumeric, -, _, and . are allowed'')
        else ok)"

section \<open>types.ts and utils/settings.ts\<close>

datatype visibility = Public | Private | Internal

fun visibilityString :: "visibility \<Rightarrow> string" where
  "visibilityString Public = ''public''"
| "visibilityString Private = ''private''"
| "visibilityString Internal = ''internal''"

text \<open>
  Every field of \<open>RepositorySettings\<close> is optional: \<open>None\<close> is \<open>undefined\<close>. A \<open>null\<close>
  in a fetched field is read by \<open>!==\<close>, \<open>??\<close> and \<open>||\<close> only, which treat it as
  \<open>undefined\<close>, so that \<open>None\<close> stands for it as well.
\<close>

record RepositorySettings =
  description :: "string option"
  visibility :: "visibility option"
  hasWiki :: "bool option"
  hasIssues :: "bool option"
  hasProjects :: "bool option"
  hasDiscussions :: "bool option"
  allowSquashMerge :: "bool option"
  allowMergeCommit :: "bool option"
  allowRebaseMerge :: "bool option"
  allowAutoMerge :: "bool option"
  deleteBranchOnMerge :: "bool option"
  allowUpdateBranch :: "bool option"
  webCommitSignoffRequired :: "bool option"

definition emptySettings :: RepositorySettings where
  "emptySettings =
     \<lparr>description = None, visibility = None, hasWiki = None, hasIssues = None,
      hasProjects = None, hasDiscussions = None, allowSquashMerge = None,
      allowMergeCommit = None, allowRebaseMerge = None, allowAutoMerge = None,
      deleteBranchOnMerge = None, allowUpdateBranch = None,
      webCommitSignoffRequired = None\<rparr>"

text \<open>The values of the request body, and the body as the object's entries in insertion order.\<close>

datatype json = JString string | JBool bool

type_synonym apiSettings = "(string \<times> json) list"

text \<open>
  One block of \<open>applyRepositorySettings\<close>: when the field is set in \<open>settings\<close>, and
  \<open>currentSettings\<close> is absent or holds another value for it, the field goes into the body
  under its API key.
\<close>

definition entry ::
  "string \<Rightarrow> ('a \<Rightarrow> json) \<Rightarrow> (RepositorySettings \<Rightarrow> 'a option) \<Rightarrow>
   RepositorySettings \<Rightarrow> RepositorySettings option \<Rightarrow> apiSettings" where
  "entry key enc field settings currentSettings =
     (case field settings of
        None \<Rightarrow> []
      | Some v \<Rightarrow>
          (case currentSettings of
             None \<Rightarrow> [(key, enc v)]
           | Some c \<Rightarrow> if field c \<noteq> field settings then [(key, enc v)] else []))"

definition buildApiSettings :: "RepositorySettings \<Rightarrow> RepositorySettings option \<Rightarrow> apiSettings" where
  "buildApiSettings settings currentSettings =
     entry ''description'' JString description settings currentSettings
     @ entry ''visibility'' (JString \<circ> visibilityString) visibility settings currentSettings
     @ entry ''has_wiki'' JBool hasWiki settings currentSettings
     @ entry ''has_issues'' JBool hasIssues settings currentSettings
     @ entry ''has_projects'' JBool hasProjects settings currentSettings
     @ entry ''has_discussions'' JBool hasDiscussions settings currentSettings
     @ entry ''allow_squash_merge'' JBool allowSquashMerge settings currentSettings
     @ entry ''allow_merge_commit'' JBool allowMergeCommit settings currentSettings
     @ entry ''allow_rebase_merge'' JBool allowRebaseMerge settings currentSettings
     @ entry ''allow_auto_merge'' JBool allowAutoMerge settings currentSettings
     @ entry ''delete_branch_on_merge'' JBool deleteBranchOnMerge settings currentSettings
     @ entry ''allow_update_branch'' JBool allowUpdateBranch settings currentSettings
     @ entry ''web_commit_signoff_required'' JBool webCommitSignoffRequired settings
         currentSettings"

text \<open>\<open>repoName.split("/")\<close> and the endpoint built from its parts.\<close>

fun splitOn :: "char \<Rightarrow> string \<Rightarrow> string list" where
  "splitOn c [] = [[]]"
| "splitOn c (x # xs) =
     (if x = c then [] # splitOn c xs
      else (case splitOn c xs of [] \<Rightarrow> [[x]] | p # ps \<Rightarrow> (x # p) # ps))"

definition endpointOf :: "string \<Rightarrow> string" where
  "endpointOf repoName =
     (case splitOn CHR ''/'' repoName of
        p0 # p1 # _ \<Rightarrow> (if p0 \<noteq> [] then ''repos/'' @ p0 @ ''/'' @ p1 else ''repos/'' @ p1)
      | [p0] \<Rightarrow> ''repos/'' @ p0
      | [] \<Rightarrow> ''repos/'')"

text \<open>
  \<open>executeGhApi\<close> is an external call: it resolves to a result with a success flag and
  the error output, or it throws.
\<close>

datatype ghOutcome = GhResult bool string | GhThrows string

type_synonym ghApi = "string \<Rightarrow> string \<Rightarrow> apiSettings \<Rightarrow> ghOutcome"

record ApplyResult =
  success :: bool
  errors :: "string list"
  noChanges :: "bool option"

text \<open>
  \<open>applyRepositorySettings\<close> returns its result together with the remote calls it made,
  each as endpoint, verb and body.
\<close>

definition applyRepositorySettings ::
  "ghApi \<Rightarrow> string \<Rightarrow> RepositorySettings \<Rightarrow> RepositorySettings option \<Rightarrow>
   ApplyResult \<times> (string \<times> string \<times> apiSettings) list" where
  "applyRepositorySettings gh repoName settings currentSettings =
     (let endpoint = endpointOf repoName;
          apiSettings = buildApiSettings settings currentSettings
      in if length apiSettings = 0
         then (\<lparr>success = True, errors = [], noChanges = Some True\<rparr>, [])
         else (case gh endpoint ''PATCH'' apiSettings of
                 GhResult succ stderr \<Rightarrow>
                   (let errs = (if \<not> succ
                                then [''Failed to apply repository settings: '' @ stderr]
                                else [])
                    in (\<lparr>success = (length errs = 0), errors = errs,
                         noChanges = Some False\<rparr>,
                        [(endpoint, ''PATCH'', apiSettings)]))
               | GhThrows msg \<Rightarrow>
                   (\<lparr>success = False,
                     errors = [''Error applying repository settings: '' @ msg],
                     noChanges = Some False\<rparr>,
                    [(endpoint, ''PATCH'', apiSettings)])))"

text \<open>The settings by key: the API name of a field and its value as sent.\<close>

datatype settingKey =
  KDescription | KVisibility | KHasWiki | KHasIssues | KHasProjects | KHasDiscussions
  | KAllowSquashMerge | KAllowMergeCommit | KAllowRebaseMerge | KAllowAutoMerge
  | KDeleteBranchOnMerge | KAllowUpdateBranch | KWebCommitSignoffRequired

definition allKeys :: "settingKey list" where
  "allKeys = [KDescription, KVisibility, KHasWiki, KHasIssues, KHasProjects, KHasDiscussions,
     KAllowSquashMerge, KAllowMergeCommit, KAllowRebaseMerge, KAllowAutoMerge,
     KDeleteBranchOnMerge, KAllowUpdateBranch, KWebCommitSignoffRequired]"

fun apiName :: "settingKey \<Rightarrow> string" where
  "apiName KDescription = ''description''"
| "apiName KVisibility = ''visibility''"
| "apiName KHasWiki = ''has_wiki''"
| "apiName KHasIssues = ''has_issues''"
| "apiName KHasProjects = ''has_projects''"
| "apiName KHasDiscussions = ''has_discussions''"
| "apiName KAllowSquashMerge = ''allow_squash_merge''"
| "apiName KAllowMergeCommit = ''allow_merge_commit''"
| "apiName KAllowRebaseMerge = ''allow_rebase_merge''"
| "apiName KAllowAutoMerge = ''allow_auto_merge''"
| "apiName KDeleteBranchOnMerge = ''delete_branch_on_merge''"
| "apiName KAllowUpdateBranch = ''allow_update_branch''"
| "apiName KWebCommitSignoffRequired = ''web_commit_signoff_required''"

fun settingValue :: "settingKey \<Rightarrow> RepositorySettings \<Rightarrow> json option" where
  "settingValue KDescription s = map_option JString (description s)"
| "settingValue KVisibility s = map_option (JString \<circ> visibilityString) (visibility s)"
| "settingValue KHasWiki s = map_option JBool (hasWiki s)"
| "settingValue KHasIssues s = map_option JBool (hasIssues s)"
| "settingValue KHasProjects s = map_option JBool (hasProjects s)"
| "settingValue KHasDiscussions s = map_option JBool (hasDiscussions s)"
| "settingValue KAllowSquashMerge s = map_option JBool (allowSquashMerge s)"
| "settingValue KAllowMergeCommit s = map_option JBool (allowMergeCommit s)"
| "settingValue KAllowRebaseMerge s = map_option JBool (allowRebaseMerge s)"
| "settingValue KAllowAutoMerge s = map_option JBool (allowAutoMerge s)"
| "settingValue KDeleteBranchOnMerge s = map_option JBool (deleteBranchOnMerge s)"
| "settingValue KAllowUpdateBranch s = map_option JBool (allowUpdateBranch s)"
| "settingValue KWebCommitSignoffRequired s = map_option JBool (webCommitSignoffRequired s)"

text \<open>\<open>Object.keys(settings)\<close>: the fields that are set.\<close>

definition objectKeys :: "RepositorySettings \<Rightarrow> settingKey list" where
  "objectKeys s = filter (\<lambda>k. settingValue k s \<noteq> None) allKeys"

section \<open>The prompts\<close>

text \<open>
  What the user does at a prompt: dismiss it, accept a quick pick with the item of a given
  label active, or accept an input box with a text. The label of the back item,
  an arrow (U+2190) followed by \<open>Back\<close>, is written \<open><- Back\<close>. An answer of the wrong
  kind for a prompt is read as the prompt being dismissed.
\<close>

datatype answer = Hide | Pick string | Text string

definition backLabel :: string where
  "backLabel = ''<- Back''"

text \<open>
  The cancellation token is read between prompts only, and once fired it stays fired:
  it is given by the number of answered prompts after which it reads true
  (\<open>None\<close>: it never fires).
\<close>

definition isCancellationRequested :: "nat option \<Rightarrow> nat \<Rightarrow> bool" where
  "isCancellationRequested token n = (case token of None \<Rightarrow> False | Some c \<Rightarrow> c \<le> n)"

text \<open>\<open>showInputBox\<close> resolves to the text, or to \<open>undefined\<close>.\<close>

definition inputBox :: "answer \<Rightarrow> string option" where
  "inputBox a = (case a of Text t \<Rightarrow> Some t | _ \<Rightarrow> None)"

text \<open>\<open>Array.prototype.indexOf\<close>: the first position, or \<open>-1\<close>.\<close>

fun indexOf :: "'a list \<Rightarrow> 'a \<Rightarrow> int" where
  "indexOf [] x = - 1"
| "indexOf (y # ys) x =
     (if y = x then 0 else (let i = indexOf ys x in if i < 0 then - 1 else i + 1))"

section \<open>commands/modify.ts: collectModifications\<close>

datatype ModifyStep =
  CATEGORY | BASIC_DESCRIPTION | BASIC_VISIBILITY
  | FEATURES_WIKI | FEATURES_ISSUES | FEATURES_PROJECTS | FEATURES_DISCUSSIONS
  | PR_SQUASH | PR_MERGE | PR_REBASE | PR_AUTO | PR_DELETE_BRANCH | PR_UPDATE_BRANCH
  | GENERAL_SIGNOFF | MODIFY_DONE

definition getStepSequence_modify :: "string option \<Rightarrow> ModifyStep list" where
  "getStepSequence_modify category =
     (if category = None \<or> category = Some [] then [CATEGORY, MODIFY_DONE]
      else if category = Some ''basic''
      then [CATEGORY, BASIC_DESCRIPTION, BASIC_VISIBILITY, MODIFY_DONE]
      else if category = Some ''features''
      then [CATEGORY, FEATURES_WIKI, FEATURES_ISSUES, FEATURES_PROJECTS,
            FEATURES_DISCUSSIONS, MODIFY_DONE]
      else if category = Some ''pr''
      then [CATEGORY, PR_SQUASH, PR_MERGE, PR_REBASE, PR_AUTO, PR_DELETE_BRANCH,
            PR_UPDATE_BRANCH, MODIFY_DONE]
      else if category = Some ''general''
      then [CATEGORY, GENERAL_SIGNOFF, MODIFY_DONE]
      else if category = Some ''all''
      then [CATEGORY, BASIC_DESCRIPTION, BASIC_VISIBILITY,
            FEATURES_WIKI, FEATURES_ISSUES, FEATURES_PROJECTS, FEATURES_DISCUSSIONS,
            PR_SQUASH, PR_MERGE, PR_REBASE, PR_AUTO, PR_DELETE_BRANCH, PR_UPDATE_BRANCH,
            GENERAL_SIGNOFF, MODIFY_DONE]
      else [CATEGORY, MODIFY_DONE])"

definition getNextStep_modify :: "string option \<Rightarrow> ModifyStep \<Rightarrow> ModifyStep" where
  "getNextStep_modify selectedCategory currentStep =
     (let sequence = getStepSequence_modify selectedCategory;
          currentIndex = indexOf sequence currentStep
      in if currentIndex \<ge> 0 \<and> currentIndex < int (length sequence) - 1
         then sequence ! nat (currentIndex + 1)
         else MODIFY_DONE)"

text \<open>\<open>moveToPreviousStep\<close> returns the new current step.\<close>

definition moveToPreviousStep_modify :: "string option \<Rightarrow> ModifyStep \<Rightarrow> ModifyStep" where
  "moveToPreviousStep_modify selectedCategory currentStep =
     (let sequence = getStepSequence_modify selectedCategory;
          currentIndex = indexOf sequence currentStep
      in if currentIndex > 0 then sequence ! nat (currentIndex - 1) else currentStep)"

definition categoryOptions :: "(string \<times> string) list" where
  "categoryOptions =
     [(''Basic Settings'', ''basic''), (''Features'', ''features''),
      (''Pull Request Settings'', ''pr''), (''General Settings'', ''general''),
      (''All Settings'', ''all'')]"

text \<open>
  The category pick resolves to the option with the accepted label; the back item and
  a dismissal resolve to \<open>undefined\<close>.
\<close>

definition resolveCategory :: "answer \<Rightarrow> string option" where
  "resolveCategory a =
     (case a of
        Pick l \<Rightarrow> if l = backLabel then None else map_of categoryOptions l
      | _ \<Rightarrow> None)"

definition visibilityOptions_modify :: "(string \<times> visibility) list" where
  "visibilityOptions_modify =
     [(''Public'', Public), (''Private'', Private), (''Internal'', Internal)]"

definition resolveVisibility_modify :: "answer \<Rightarrow> visibility option" where
  "resolveVisibility_modify a =
     (case a of
        Pick l \<Rightarrow> if l = backLabel then None else map_of visibilityOptions_modify l
      | _ \<Rightarrow> None)"

text \<open>
  \<open>promptBooleanSetting\<close>: the two options carry the current value and its inverse, the
  current one first. The pick resolves to the value of the accepted option; the back item
  and a dismissal give \<open>null\<close>.
\<close>

definition booleanOptions :: "bool \<Rightarrow> (string \<times> bool) list" where
  "booleanOptions currentValue =
     [(if currentValue then ''Yes'' else ''No'', currentValue),
      (if currentValue then ''No'' else ''Yes'', \<not> currentValue)]"

definition resolveBoolean :: "bool \<Rightarrow> answer \<Rightarrow> bool option" where
  "resolveBoolean currentValue a =
     (case a of
        Pick l \<Rightarrow> if l = backLabel then None else map_of (booleanOptions currentValue) l
      | _ \<Rightarrow> None)"

text \<open>The boolean fields by key, read and written.\<close>

fun boolField :: "settingKey \<Rightarrow> RepositorySettings \<Rightarrow> bool option" where
  "boolField KHasWiki s = hasWiki s"
| "boolField KHasIssues s = hasIssues s"
| "boolField KHasProjects s = hasProjects s"
| "boolField KHasDiscussions s = hasDiscussions s"
| "boolField KAllowSquashMerge s = allowSquashMerge s"
| "boolField KAllowMergeCommit s = allowMergeCommit s"
| "boolField KAllowRebaseMerge s = allowRebaseMerge s"
| "boolField KAllowAutoMerge s = allowAutoMerge s"
| "boolField KDeleteBranchOnMerge s = deleteBranchOnMerge s"
| "boolField KAllowUpdateBranch s = allowUpdateBranch s"
| "boolField KWebCommitSignoffRequired s = webCommitSignoffRequired s"
| "boolField KDescription s = None"
| "boolField KVisibility s = None"

fun setBoolField :: "settingKey \<Rightarrow> bool \<Rightarrow> RepositorySettings \<Rightarrow> RepositorySettings" where
  "setBoolField KHasWiki v s = s\<lparr>hasWiki := Some v\<rparr>"
| "setBoolField KHasIssues v s = s\<lparr>hasIssues := Some v\<rparr>"
| "setBoolField KHasProjects v s = s\<lparr>hasProjects := Some v\<rparr>"
| "setBoolField KHasDiscussions v s = s\<lparr>hasDiscussions := Some v\<rparr>"
| "setBoolField KAllowSquashMerge v s = s\<lparr>allowSquashMerge := Some v\<rparr>"
| "setBoolField KAllowMergeCommit v s = s\<lparr>allowMergeCommit := Some v\<rparr>"
| "setBoolField KAllowRebaseMerge v s = s\<lparr>allowRebaseMerge := Some v\<rparr>"
| "setBoolField KAllowAutoMerge v s = s\<lparr>allowAutoMerge := Some v\<rparr>"
| "setBoolField KDeleteBranchOnMerge v s = s\<lparr>deleteBranchOnMerge := Some v\<rparr>"
| "setBoolField KAllowUpdateBranch v s = s\<lparr>allowUpdateBranch := Some v\<rparr>"
| "setBoolField KWebCommitSignoffRequired v s = s\<lparr>webCommitSignoffRequired := Some v\<rparr>"
| "setBoolField KDescription v s = s"
| "setBoolField KVisibility v s = s"

text \<open>
  The eleven boolean steps differ in the categories that enable them, the field they
  write and the value shown when the remote one is absent (the \<open>??\<close> operand).
\<close>

fun booleanStep :: "ModifyStep \<Rightarrow> (string list \<times> settingKey \<times> bool) option" where
  "booleanStep FEATURES_WIKI = Some ([''features'', ''all''], KHasWiki, True)"
| "booleanStep FEATURES_ISSUES = Some ([''features'', ''all''], KHasIssues, True)"
| "booleanStep FEATURES_PROJECTS = Some ([''features'', ''all''], KHasProjects, True)"
| "booleanStep FEATURES_DISCUSSIONS = Some ([''features'', ''all''], KHasDiscussions, False)"
| "booleanStep PR_SQUASH = Some ([''pr'', ''all''], KAllowSquashMerge, True)"
| "booleanStep PR_MERGE = Some ([''pr'', ''all''], KAllowMergeCommit, True)"
| "booleanStep PR_REBASE = Some ([''pr'', ''all''], KAllowRebaseMerge, True)"
| "booleanStep PR_AUTO = Some ([''pr'', ''all''], KAllowAutoMerge, False)"
| "booleanStep PR_DELETE_BRANCH = Some ([''pr'', ''all''], KDeleteBranchOnMerge, False)"
| "booleanStep PR_UPDATE_BRANCH = Some ([''pr'', ''all''], KAllowUpdateBranch, False)"
| "booleanStep GENERAL_SIGNOFF = Some ([''general'', ''all''], KWebCommitSignoffRequired, False)"
| "booleanStep _ = None"

definition inCategories :: "string option \<Rightarrow> string list \<Rightarrow> bool" where
  "inCategories selectedCategory cs \<longleftrightarrow> (\<exists>c \<in> set cs. selectedCategory = Some c)"

text \<open>
  The guard of the step's block in the navigation loop; a step whose guard fails falls
  through to the \<open>moveToNextStep\<close> at the end of the loop body.
\<close>

definition handled :: "string option \<Rightarrow> ModifyStep \<Rightarrow> bool" where
  "handled selectedCategory step \<longleftrightarrow>
     step = CATEGORY
     \<or> (step = BASIC_DESCRIPTION \<or> step = BASIC_VISIBILITY)
        \<and> (selectedCategory = Some ''basic'' \<or> selectedCategory = Some ''all'')
     \<or> (case booleanStep step of
           Some (cs, _, _) \<Rightarrow> inCategories selectedCategory cs
         | None \<Rightarrow> False)"

text \<open>
  The outcome of the wizard on the answers given: it has returned (\<open>null\<close> or the
  modifications), or it stands at a prompt with no answer left.
\<close>

datatype ModifyOutcome =
  Collected "RepositorySettings option"
  | Prompting RepositorySettings "string option" ModifyStep

text \<open>
  A step whose block is guarded out falls through to \<open>moveToNextStep\<close>; such a step is
  not in the sequence of the category, so the next step is the terminal one. The loop
  below terminates by this.
\<close>

lemma fallthrough_done:
  "\<not> handled selectedCategory step \<Longrightarrow> getNextStep_modify selectedCategory step = MODIFY_DONE"
  by (cases step)
     (auto simp: handled_def getNextStep_modify_def getStepSequence_modify_def inCategories_def)

text \<open>
  The navigation loop, on the answers still to come; \<open>n\<close> counts the answers given so far.
  Inside \<open>promptBooleanSetting\<close> the token reads as at the head of the iteration, no prompt
  having been answered in between.
\<close>

function navigationLoop_modify ::
  "RepositorySettings \<Rightarrow> nat option \<Rightarrow> RepositorySettings \<Rightarrow> string option \<Rightarrow> ModifyStep \<Rightarrow>
   nat \<Rightarrow> answer list \<Rightarrow> ModifyOutcome" where
  "navigationLoop_modify currentSettings token modifications selectedCategory currentStep n answers =
     (if currentStep = MODIFY_DONE
      then Collected (if length (objectKeys modifications) > 0 then Some modifications else None)
      else if isCancellationRequested token n then Collected None
      else if currentStep = CATEGORY
      then (case answers of
              [] \<Rightarrow> Prompting modifications selectedCategory currentStep
            | a # rest \<Rightarrow>
                (case resolveCategory a of
                   None \<Rightarrow> Collected None
                 | Some category \<Rightarrow>
                     navigationLoop_modify currentSettings token modifications (Some category)
                       (getNextStep_modify (Some category) currentStep) (Suc n) rest))
      else if currentStep = BASIC_DESCRIPTION
              \<and> (selectedCategory = Some ''basic'' \<or> selectedCategory = Some ''all'')
      then (case answers of
              [] \<Rightarrow> Prompting modifications selectedCategory currentStep
            | a # rest \<Rightarrow>
                (case inputBox a of
                   None \<Rightarrow>
                     navigationLoop_modify currentSettings token modifications selectedCategory
                       (moveToPreviousStep_modify selectedCategory currentStep) (Suc n) rest
                 | Some d \<Rightarrow>
                     navigationLoop_modify currentSettings token (modifications\<lparr>description := Some d\<rparr>)
                       selectedCategory (getNextStep_modify selectedCategory currentStep)
                       (Suc n) rest))
      else if currentStep = BASIC_VISIBILITY
              \<and> (selectedCategory = Some ''basic'' \<or> selectedCategory = Some ''all'')
      then (case answers of
              [] \<Rightarrow> Prompting modifications selectedCategory currentStep
            | a # rest \<Rightarrow>
                (case resolveVisibility_modify a of
                   None \<Rightarrow>
                     navigationLoop_modify currentSettings token modifications selectedCategory
                       (moveToPreviousStep_modify selectedCategory currentStep) (Suc n) rest
                 | Some v \<Rightarrow>
                     navigationLoop_modify currentSettings token (modifications\<lparr>visibility := Some v\<rparr>)
                       selectedCategory (getNextStep_modify selectedCategory currentStep)
                       (Suc n) rest))
      else (case booleanStep currentStep of
              None \<Rightarrow>
                navigationLoop_modify currentSettings token modifications selectedCategory
                  (getNextStep_modify selectedCategory currentStep) n answers
            | Some info \<Rightarrow>
                if \<not> inCategories selectedCategory (fst info)
                then navigationLoop_modify currentSettings token modifications selectedCategory
                       (getNextStep_modify selectedCategory currentStep) n answers
                else (case answers of
                   [] \<Rightarrow> Prompting modifications selectedCategory currentStep
                 | a # rest \<Rightarrow>
                     (case resolveBoolean
                             (case boolField (fst (snd info)) currentSettings of
                                Some b \<Rightarrow> b | None \<Rightarrow> snd (snd info)) a of
                        None \<Rightarrow>
                          navigationLoop_modify currentSettings token modifications selectedCategory
                            (moveToPreviousStep_modify selectedCategory currentStep) (Suc n) rest
                      | Some v \<Rightarrow>
                          navigationLoop_modify currentSettings token (setBoolField (fst (snd info)) v modifications)
                            selectedCategory (getNextStep_modify selectedCategory currentStep)
                            (Suc n) rest))))"
  by pat_completeness auto
termination
  by (relation "measure (\<lambda>(cur, tok, mods, cat, step, n, answers).
        2 * length answers + (if step = MODIFY_DONE then 0 else 1))")
     (auto simp: fallthrough_done handled_def)

declare navigationLoop_modify.simps [simp del]


definition collectModifications ::
  "RepositorySettings \<Rightarrow> nat option \<Rightarrow> answer list \<Rightarrow> ModifyOutcome" where
  "collectModifications currentSettings token answers =
     (if isCancellationRequested token 0 then Collected None
      else navigationLoop_modify currentSettings token emptySettings None CATEGORY 0 answers)"


section \<open>commands/modify.ts: modifyRepository\<close>

text \<open>
  What the user and the remote system see of a run, in order: messages, dialogs, remote
  calls and commands, and a prompt left open when the answers run out (the later
  constructors belong to the creation flow). In \<open>modifyRepository\<close> the repository is
  taken as already selected, and the token is read at three places outside the wizard.
\<close>

fun joinWith :: "string \<Rightarrow> string list \<Rightarrow> string" where
  "joinWith sep [] = []"
| "joinWith sep [x] = x"
| "joinWith sep (x # y # ys) = x @ sep @ joinWith sep (y # ys)"

datatype event =
  ShowInformation string | ShowWarning string | ShowError string
  | RemoteCall string string apiSettings
  | AwaitAnswer
  | GhCommand string
  | ExistsDialog string
  | ModifyExisting string
  | OfferRollback string
  | CreateIssue string string string
  | IssueDevelop string int string
  | CreateBranch string string
  | CloneRepository string
  | Scaffold string
  | OpenFolder string

record ModifyEnv =
  tokenAtFetch :: bool
  fetchedSettings :: "RepositorySettings option"
  tokenAtCollect :: bool
  wizardToken :: "nat option"
  wizardAnswers :: "answer list"
  tokenAtApply :: bool
  executeGhApi :: ghApi

definition modifyRepository :: "ModifyEnv \<Rightarrow> string \<Rightarrow> event list" where
  "modifyRepository env targetRepo =
     (if tokenAtFetch env then []
      else if targetRepo = [] then []
      else (case fetchedSettings env of
          None \<Rightarrow> [ShowError ''Failed to fetch repository settings.'']
        | Some currentSettings \<Rightarrow>
            if tokenAtCollect env then []
            else (case collectModifications currentSettings (wizardToken env)
                         (wizardAnswers env) of
                Prompting _ _ _ \<Rightarrow> [AwaitAnswer]
              | Collected None \<Rightarrow> []
              | Collected (Some modifications) \<Rightarrow>
                  if length (objectKeys modifications) = 0
                  then [ShowInformation (''No changes to apply. ''
                          @ ''Repository settings are already as specified.'')]
                  else if tokenAtApply env then []
                  else (case applyRepositorySettings (executeGhApi env) targetRepo
                               modifications (Some currentSettings) of
                      (result, calls) \<Rightarrow>
                        map (\<lambda>(endpoint, verb, body). RemoteCall endpoint verb body) calls
                        @ (if noChanges result = Some True
                           then [ShowInformation (''No changes detected. All selected settings ''
                                   @ ''are already set to the specified values.'')]
                           else if \<not> success result
                           then [ShowError (''Failed to apply modifications: ''
                                   @ joinWith '', '' (errors result))]
                           else [ShowInformation (''Repository '' @ targetRepo
                                   @ '' modified successfully.'')])))))"


text \<open>The entry a key contributes to the request body when current settings are given.\<close>

definition changedEntry :: "RepositorySettings \<Rightarrow> RepositorySettings \<Rightarrow> settingKey \<Rightarrow> apiSettings" where
  "changedEntry s c k =
     (case settingValue k s of
        None \<Rightarrow> []
      | Some v \<Rightarrow> if settingValue k c \<noteq> Some v then [(apiName k, v)] else [])"

section \<open>commands/create.ts: collectUserInputs\<close>

datatype Step =
  OWNER | NAME | DESCRIPTION | VISIBILITY | TEMPLATE | README | LICENSE | ISSUE | BRANCH
  | WORKSPACE | ADVANCED | DONE

text \<open>
  The wizard state. A field of the shape \<open>{ label }\<close> holds the label; the selected
  owner holds label and value. The state, the options and the settings share field names
  with each other and with local variables: the shared fields of the state carry the
  suffix \<open>_s\<close>, the fields of the options the suffix \<open>_o\<close>.
\<close>

record StepState =
  selectedOwner :: "(string \<times> string) option"
  name_s :: "string option"
  description_s :: "string option"
  visibility_s :: "visibility option"
  useTemplate :: "string option"
  template_s :: "string option"
  addReadme_s :: "string option"
  license_s :: "string option"
  createIssue_s :: "string option"
  issueTitle_s :: "string option"
  issueBody_s :: "string option"
  createBranch_s :: "string option"
  branchName_s :: "string option"
  setupWorkspace_s :: "string option"
  advancedConfig :: "string option"
  settings_s :: "RepositorySettings option"

definition emptyState :: StepState where
  "emptyState =
     \<lparr>selectedOwner = None, name_s = None, description_s = None, visibility_s = None,
      useTemplate = None, template_s = None, addReadme_s = None, license_s = None,
      createIssue_s = None, issueTitle_s = None, issueBody_s = None, createBranch_s = None,
      branchName_s = None, setupWorkspace_s = None, advancedConfig = None,
      settings_s = None\<rparr>"

record CreateRepoOptions =
  name_o :: string
  description_o :: string
  visibility_o :: visibility
  owner_o :: "string option"
  template_o :: "string option"
  addReadme_o :: bool
  license_o :: "string option"
  createIssue_o :: bool
  issueTitle_o :: "string option"
  issueBody_o :: "string option"
  createBranch_o :: bool
  branchName_o :: "string option"
  setupWorkspace_o :: bool
  settings_o :: "RepositorySettings option"

text \<open>A string that is defined and not empty is truthy.\<close>

definition truthy :: "string option \<Rightarrow> bool" where
  "truthy s = (case s of None \<Rightarrow> False | Some t \<Rightarrow> t \<noteq> [])"

definition baseSteps :: "Step list" where
  "baseSteps = [OWNER, NAME, DESCRIPTION, VISIBILITY, TEMPLATE]"

definition getStepSequence :: "StepState \<Rightarrow> Step list" where
  "getStepSequence state =
     (if truthy (template_s state)
      then baseSteps @ [ISSUE, BRANCH, WORKSPACE, ADVANCED, DONE]
      else baseSteps @ [README, LICENSE, ISSUE, BRANCH, WORKSPACE, ADVANCED, DONE])"

definition getCurrentStepNumber :: "StepState \<Rightarrow> Step \<Rightarrow> int" where
  "getCurrentStepNumber state currentStep =
     (let index = indexOf (getStepSequence state) currentStep
      in if index \<ge> 0 then index + 1 else 1)"

definition getNextStep :: "StepState \<Rightarrow> Step \<Rightarrow> Step" where
  "getNextStep state currentStep =
     (let sequence = getStepSequence state;
          currentIndex = indexOf sequence currentStep
      in if currentIndex \<ge> 0 \<and> currentIndex < int (length sequence) - 1
         then sequence ! nat (currentIndex + 1)
         else DONE)"

text \<open>\<open>moveToPreviousStep\<close> assigns the current step only; it returns the new one.\<close>

definition moveToPreviousStep :: "StepState \<Rightarrow> Step \<Rightarrow> Step" where
  "moveToPreviousStep state currentStep =
     (let sequence = getStepSequence state;
          currentIndex = indexOf sequence currentStep
      in if currentIndex > 0 then sequence ! nat (currentIndex - 1) else currentStep)"

definition addBackOption :: "string list \<Rightarrow> bool \<Rightarrow> string list" where
  "addBackOption items canGoBack = (if \<not> canGoBack then items else backLabel # items)"

text \<open>
  The quick picks of the creation flow resolve to the accepted item, by its label; when
  the accepted item is the back item and the default option exists, they resolve to the
  default option instead. A dismissal, and an accept with no item active, resolve to
  \<open>undefined\<close>.
\<close>

definition quickPick :: "string list \<Rightarrow> bool \<Rightarrow> string \<Rightarrow> answer \<Rightarrow> string option" where
  "quickPick items canGoBack defaultLabel a =
     (let allOptions = addBackOption items canGoBack
      in case a of
           Pick l \<Rightarrow>
             if l \<notin> set allOptions then None
             else if l = backLabel \<and> defaultLabel \<in> set allOptions then Some defaultLabel
             else Some l
         | _ \<Rightarrow> None)"

text \<open>\<open>showQuickPick\<close> on items with a value resolves to the picked item.\<close>

definition showQuickPick :: "(string \<times> 'a) list \<Rightarrow> answer \<Rightarrow> (string \<times> 'a) option" where
  "showQuickPick items a =
     (case a of Pick l \<Rightarrow> find (\<lambda>item. fst item = l) items | _ \<Rightarrow> None)"

text \<open>
  An input box with \<open>validateInput\<close> stays open on a text the validation rejects; it
  resolves on a dismissal or on the first accepted text. \<open>Answered\<close> carries the number of
  answers given so far and the answers left.
\<close>

datatype 'a asked = NoAnswer | Answered 'a nat "answer list"

fun validatedInput :: "(string \<Rightarrow> bool) \<Rightarrow> nat \<Rightarrow> answer list \<Rightarrow> (string option) asked" where
  "validatedInput accept n [] = NoAnswer"
| "validatedInput accept n (a # rest) =
     (case inputBox a of
        None \<Rightarrow> Answered None (Suc n) rest
      | Some v \<Rightarrow>
          if accept v then Answered (Some v) (Suc n) rest
          else validatedInput accept (Suc n) rest)"

text \<open>What a step of the loop body does: return, move to a step, or wait at an open prompt.\<close>

datatype StepResult =
  Return "CreateRepoOptions option"
  | Continue StepState Step nat "answer list"
  | Open StepState

text \<open>
  The code after a quick pick has resolved: \<open>undefined\<close> cancels the wizard, the back
  label moves to the previous step, any other label goes to the step's own code.
\<close>

definition afterPick ::
  "StepState \<Rightarrow> Step \<Rightarrow> nat \<Rightarrow> string option \<Rightarrow> answer list \<Rightarrow> (string \<Rightarrow> StepResult) \<Rightarrow> StepResult" where
  "afterPick state step n resolved rest body =
     (case resolved of
        None \<Rightarrow> Return None
      | Some l \<Rightarrow>
          if l = backLabel then Continue state (moveToPreviousStep state step) (Suc n) rest
          else body l)"

definition pickStep ::
  "StepState \<Rightarrow> Step \<Rightarrow> nat \<Rightarrow> string list \<Rightarrow> string \<Rightarrow> answer list \<Rightarrow>
   (string \<Rightarrow> answer list \<Rightarrow> StepResult) \<Rightarrow> StepResult" where
  "pickStep state step n items defaultLabel answers body =
     (case answers of
        [] \<Rightarrow> Open state
      | a # rest \<Rightarrow>
          afterPick state step n
            (quickPick items (getCurrentStepNumber state step > 1) defaultLabel a) rest
            (\<lambda>l. body l rest))"

text \<open>The environment of the wizard: the user, the organizations, and the existence check.\<close>

record WizardEnv =
  currentUser :: "string option"
  organizations :: "string list"
  checkRepoExists :: "string \<Rightarrow> bool"

definition ownerOptions :: "WizardEnv \<Rightarrow> (string \<times> string) list" where
  "ownerOptions env =
     (case currentUser env of
        None \<Rightarrow> []
      | Some u \<Rightarrow> if u \<noteq> [] then [(u @ '' (Personal)'', u)] else [])
     @ map (\<lambda>org. (org, org)) (organizations env)"

definition stepOwner :: "WizardEnv \<Rightarrow> StepState \<Rightarrow> nat \<Rightarrow> answer list \<Rightarrow> StepResult" where
  "stepOwner env state n answers =
     (case answers of
        [] \<Rightarrow> Open state
      | a # rest \<Rightarrow>
          (case showQuickPick (ownerOptions env) a of
             None \<Rightarrow> Return None
           | Some selected \<Rightarrow>
               (let state' = state\<lparr>selectedOwner := Some selected\<rparr>
                in Continue state' (getNextStep state' OWNER) (Suc n) rest)))"

definition acceptRepoName :: "WizardEnv \<Rightarrow> string \<Rightarrow> string \<Rightarrow> bool" where
  "acceptRepoName env ownerValue v \<longleftrightarrow>
     \<not> (v = [] \<or> length (trim v) = 0)
     \<and> valid (validateRepoName v)
     \<and> \<not> checkRepoExists env (ownerValue @ ''/'' @ v)"

definition stepName :: "WizardEnv \<Rightarrow> StepState \<Rightarrow> nat \<Rightarrow> answer list \<Rightarrow> StepResult" where
  "stepName env state n answers =
     (let ownerValue = (case selectedOwner state of None \<Rightarrow> [] | Some selected \<Rightarrow> snd selected)
      in if ownerValue = []
         then Continue state (moveToPreviousStep state NAME) n answers
         else (case validatedInput (acceptRepoName env ownerValue) n answers of
                 NoAnswer \<Rightarrow> Open state
               | Answered None n' rest \<Rightarrow> Return None
               | Answered (Some v) n' rest \<Rightarrow>
                   (let state' = state\<lparr>name_s := Some v\<rparr>
                    in Continue state' (getNextStep state' NAME) n' rest)))"

definition stepDescription :: "StepState \<Rightarrow> nat \<Rightarrow> answer list \<Rightarrow> StepResult" where
  "stepDescription state n answers =
     (case answers of
        [] \<Rightarrow> Open state
      | a # rest \<Rightarrow>
          (case inputBox a of
             None \<Rightarrow> Return None
           | Some d \<Rightarrow>
               (let state' = state\<lparr>description_s := Some d\<rparr>
                in Continue state' (getNextStep state' DESCRIPTION) (Suc n) rest)))"

definition visibilityOptions :: "(string \<times> visibility) list" where
  "visibilityOptions = [(''Private'', Private), (''Public'', Public), (''Internal'', Internal)]"

definition stepVisibility :: "StepState \<Rightarrow> nat \<Rightarrow> answer list \<Rightarrow> StepResult" where
  "stepVisibility state n answers =
     pickStep state VISIBILITY n (map fst visibilityOptions) ''Private'' answers
       (\<lambda>l rest.
          let state' = (case map_of visibilityOptions l of
                          None \<Rightarrow> state
                        | Some v \<Rightarrow> state\<lparr>visibility_s := Some v\<rparr>)
          in Continue state' (getNextStep state' VISIBILITY) (Suc n) rest)"

definition stepTemplate :: "StepState \<Rightarrow> nat \<Rightarrow> answer list \<Rightarrow> StepResult" where
  "stepTemplate state n answers =
     pickStep state TEMPLATE n [''No'', ''Yes''] ''No'' answers
       (\<lambda>l rest.
          let state1 = state\<lparr>useTemplate := Some l\<rparr>
          in if l = ''Yes''
             then (case rest of
                     [] \<Rightarrow> Open state1
                   | b # rest' \<Rightarrow>
                       (case inputBox b of
                          None \<Rightarrow> Continue state1 TEMPLATE (Suc (Suc n)) rest'
                        | Some templateInput \<Rightarrow>
                            Continue (state1\<lparr>template_s := Some templateInput,
                                        addReadme_s := Some ''No'', license_s := None\<rparr>)
                              ISSUE (Suc (Suc n)) rest'))
             else Continue (state1\<lparr>template_s := None\<rparr>) README (Suc n) rest)"

definition stepReadme :: "StepState \<Rightarrow> nat \<Rightarrow> answer list \<Rightarrow> StepResult" where
  "stepReadme state n answers =
     pickStep state README n [''No'', ''Yes''] ''No'' answers
       (\<lambda>l rest.
          let state' = state\<lparr>addReadme_s := Some l\<rparr>
          in Continue state' (getNextStep state' README) (Suc n) rest)"

definition licenseOptions :: "(string \<times> string) list" where
  "licenseOptions =
     [(''None'', ''none''), (''MIT'', ''mit''), (''Apache-2.0'', ''apache-2.0''),
      (''GPL-3.0'', ''gpl-3.0''), (''BSD-3-Clause'', ''bsd-3-clause''),
      (''BSD-2-Clause'', ''bsd-2-clause''), (''LGPL-3.0'', ''lgpl-3.0''),
      (''AGPL-3.0'', ''agpl-3.0''), (''MPL-2.0'', ''mpl-2.0''),
      (''Unlicense'', ''unlicense'')]"

definition stepLicense :: "StepState \<Rightarrow> nat \<Rightarrow> answer list \<Rightarrow> StepResult" where
  "stepLicense state n answers =
     pickStep state LICENSE n (map fst licenseOptions) ''None'' answers
       (\<lambda>l rest.
          let selectedLicense = map_of licenseOptions l;
              state' = (if truthy selectedLicense \<and> selectedLicense \<noteq> Some ''none''
                        then state\<lparr>license_s := selectedLicense\<rparr>
                        else state\<lparr>license_s := None\<rparr>)
          in Continue state' (getNextStep state' LICENSE) (Suc n) rest)"

definition stepIssue :: "StepState \<Rightarrow> nat \<Rightarrow> answer list \<Rightarrow> StepResult" where
  "stepIssue state n answers =
     pickStep state ISSUE n [''No'', ''Yes''] ''No'' answers
       (\<lambda>l rest.
          let state1 = (if l \<in> set [''No'', ''Yes''] then state\<lparr>createIssue_s := Some l\<rparr>
                        else state)
          in if l = ''Yes''
             then (case rest of
                     [] \<Rightarrow> Open state1
                   | b # rest1 \<Rightarrow>
                       (case inputBox b of
                          None \<Rightarrow> Continue state1 ISSUE (Suc (Suc n)) rest1
                        | Some title \<Rightarrow>
                            (let state2 = state1\<lparr>issueTitle_s := Some title\<rparr>
                             in case rest1 of
                                  [] \<Rightarrow> Open state2
                                | c # rest2 \<Rightarrow>
                                    (case inputBox c of
                                       None \<Rightarrow> Continue state2 ISSUE (Suc (Suc (Suc n))) rest2
                                     | Some body \<Rightarrow>
                                         (let state3 = state2\<lparr>issueBody_s := Some body\<rparr>
                                          in Continue state3 (getNextStep state3 ISSUE)
                                               (Suc (Suc (Suc n))) rest2)))))
             else (let state2 = state1\<lparr>issueTitle_s := None, issueBody_s := None\<rparr>
                   in Continue state2 (getNextStep state2 ISSUE) (Suc n) rest))"

definition acceptBranchName :: "string \<Rightarrow> bool" where
  "acceptBranchName v \<longleftrightarrow> \<not> (v = [] \<or> length (trim v) = 0) \<and> valid (validateBranchName v)"

definition stepBranch :: "StepState \<Rightarrow> nat \<Rightarrow> answer list \<Rightarrow> StepResult" where
  "stepBranch state n answers =
     (if createIssue_s state = Some ''No''
      then Continue (state\<lparr>createBranch_s := Some ''No'', branchName_s := None\<rparr>)
             WORKSPACE n answers
      else pickStep state BRANCH n [''Yes'', ''No''] ''Yes'' answers
        (\<lambda>l rest.
           let state1 = (if l \<in> set [''Yes'', ''No''] then state\<lparr>createBranch_s := Some l\<rparr>
                         else state)
           in if l = ''Yes''
              then (case validatedInput acceptBranchName (Suc n) rest of
                      NoAnswer \<Rightarrow> Open state1
                    | Answered None n' rest' \<Rightarrow> Continue state1 BRANCH n' rest'
                    | Answered (Some b) n' rest' \<Rightarrow>
                        (let state2 = state1\<lparr>branchName_s := Some b\<rparr>
                         in Continue state2 (getNextStep state2 BRANCH) n' rest'))
              else (let state2 = state1\<lparr>branchName_s := None\<rparr>
                    in Continue state2 (getNextStep state2 BRANCH) (Suc n) rest)))"

definition stepWorkspace :: "StepState \<Rightarrow> nat \<Rightarrow> answer list \<Rightarrow> StepResult" where
  "stepWorkspace state n answers =
     pickStep state WORKSPACE n [''No'', ''Yes''] ''No'' answers
       (\<lambda>l rest.
          let state' = (if l \<in> set [''No'', ''Yes''] then state\<lparr>setupWorkspace_s := Some l\<rparr>
                        else state)
          in Continue state' (getNextStep state' WORKSPACE) (Suc n) rest)"

text \<open>The prompts of the advanced settings: the field and the default shown first.\<close>

definition settingPrompts :: "(settingKey \<times> bool) list" where
  "settingPrompts =
     [(KHasIssues, True), (KHasProjects, True), (KHasWiki, True), (KHasDiscussions, False),
      (KAllowSquashMerge, True), (KAllowMergeCommit, True), (KAllowRebaseMerge, True),
      (KAllowAutoMerge, False), (KDeleteBranchOnMerge, False), (KAllowUpdateBranch, False),
      (KWebCommitSignoffRequired, False)]"

text \<open>
  The loop over the advanced settings. \<open>promptBooleanSetting\<close> gives \<open>null\<close> without
  prompting when the token has fired, and on the back item or a dismissal; \<open>null\<close> steps
  back one setting, and at the first setting leaves the loop with no settings.
\<close>

function settingsLoop ::
  "nat option \<Rightarrow> nat \<Rightarrow> RepositorySettings \<Rightarrow> nat \<Rightarrow> answer list \<Rightarrow>
   (RepositorySettings option) asked" where
  "settingsLoop token settingIndex settings n answers =
     (if settingIndex < length settingPrompts
      then (if isCancellationRequested token n
            then (if settingIndex > 0
                  then settingsLoop token (settingIndex - 1) settings n answers
                  else Answered None n answers)
            else (case answers of
                    [] \<Rightarrow> NoAnswer
                  | a # rest \<Rightarrow>
                      (case resolveBoolean (snd (settingPrompts ! settingIndex)) a of
                         None \<Rightarrow>
                           if settingIndex > 0
                           then settingsLoop token (settingIndex - 1) settings (Suc n) rest
                           else Answered None (Suc n) rest
                       | Some result \<Rightarrow>
                           settingsLoop token (Suc settingIndex)
                             (setBoolField (fst (settingPrompts ! settingIndex)) result settings)
                             (Suc n) rest)))
      else Answered (Some settings) n answers)"
  by pat_completeness auto
termination
  by (relation "measures [\<lambda>(token, settingIndex, settings, n, answers). length answers,
                          \<lambda>(token, settingIndex, settings, n, answers). settingIndex]") auto

declare settingsLoop.simps [simp del]

text \<open>The end of the advanced step: the options are built from the state.\<close>

definition buildOptions :: "StepState \<Rightarrow> CreateRepoOptions option" where
  "buildOptions state =
     (case (name_s state, selectedOwner state, visibility_s state) of
        (Some nm, Some selected, Some vis) \<Rightarrow>
          if nm = [] then None
          else Some \<lparr>name_o = nm,
              description_o = (case description_s state of None \<Rightarrow> [] | Some d \<Rightarrow> d),
              visibility_o = vis,
              owner_o = Some (snd selected),
              template_o = template_s state,
              addReadme_o = (addReadme_s state = Some ''Yes''),
              license_o = license_s state,
              createIssue_o = (createIssue_s state = Some ''Yes''),
              issueTitle_o = issueTitle_s state,
              issueBody_o = issueBody_s state,
              createBranch_o = (createBranch_s state = Some ''Yes''),
              branchName_o = branchName_s state,
              setupWorkspace_o = (setupWorkspace_s state = Some ''Yes''),
              settings_o = settings_s state\<rparr>
      | _ \<Rightarrow> None)"

definition stepAdvanced :: "nat option \<Rightarrow> StepState \<Rightarrow> nat \<Rightarrow> answer list \<Rightarrow> StepResult" where
  "stepAdvanced token state n answers =
     pickStep state ADVANCED n [''No'', ''Yes''] ''No'' answers
       (\<lambda>l rest.
          let state1 = (if l \<in> set [''No'', ''Yes''] then state\<lparr>advancedConfig := Some l\<rparr>
                        else state)
          in if l = ''Yes''
             then (case settingsLoop token 0 emptySettings (Suc n) rest of
                     NoAnswer \<Rightarrow> Open state1
                   | Answered None n' rest' \<Rightarrow>
                       Return (buildOptions
                         (state1\<lparr>advancedConfig := Some ''No'', settings_s := None\<rparr>))
                   | Answered (Some settings) n' rest' \<Rightarrow>
                       Return (buildOptions (state1\<lparr>settings_s := Some settings\<rparr>)))
             else Return (buildOptions (state1\<lparr>settings_s := None\<rparr>)))"

definition stepBody ::
  "WizardEnv \<Rightarrow> nat option \<Rightarrow> StepState \<Rightarrow> Step \<Rightarrow> nat \<Rightarrow> answer list \<Rightarrow> StepResult" where
  "stepBody env token state currentStep n answers =
     (case currentStep of
        OWNER \<Rightarrow> stepOwner env state n answers
      | NAME \<Rightarrow> stepName env state n answers
      | DESCRIPTION \<Rightarrow> stepDescription state n answers
      | VISIBILITY \<Rightarrow> stepVisibility state n answers
      | TEMPLATE \<Rightarrow> stepTemplate state n answers
      | README \<Rightarrow> stepReadme state n answers
      | LICENSE \<Rightarrow> stepLicense state n answers
      | ISSUE \<Rightarrow> stepIssue state n answers
      | BRANCH \<Rightarrow> stepBranch state n answers
      | WORKSPACE \<Rightarrow> stepWorkspace state n answers
      | ADVANCED \<Rightarrow> stepAdvanced token state n answers
      | DONE \<Rightarrow> Return None)"

text \<open>
  Every step that moves on has consumed an answer, but for two: the branch step skipped
  for want of an issue moves to the workspace step, and the name step without an owner
  moves back to the owner step. The navigation loop terminates by this.
\<close>

definition rank :: "Step \<Rightarrow> nat" where
  "rank step = (if step = NAME \<or> step = BRANCH then 1 else 0)"

lemma validatedInput_shorter:
  "validatedInput accept n answers = Answered r n' rest \<Longrightarrow> length rest < length answers"
proof (induction answers arbitrary: n)
  case Nil
  then show ?case by simp
next
  case (Cons a answers)
  show ?case
  proof (cases "inputBox a")
    case None
    with Cons.prems show ?thesis by auto
  next
    case (Some v)
    show ?thesis
    proof (cases "accept v")
      case True
      with Some Cons.prems show ?thesis by auto
    next
      case False
      with Some Cons.prems have "validatedInput accept (Suc n) answers = Answered r n' rest"
        by simp
      from Cons.IH [OF this] show ?thesis by simp
    qed
  qed
qed

lemma settingsLoop_le:
  "settingsLoop token i s n answers = Answered r n' rest \<Longrightarrow> length rest \<le> length answers"
proof (induction token i s n answers rule: settingsLoop.induct)
  case (1 token settingIndex settings n answers)
  note eq = "1.prems" [unfolded settingsLoop.simps [of token settingIndex settings n answers]]
  show ?case
  proof (cases "settingIndex < length settingPrompts")
    case False
    with eq show ?thesis by simp
  next
    case inRange: True
    show ?thesis
    proof (cases "isCancellationRequested token n")
      case fired: True
      show ?thesis
      proof (cases "settingIndex > 0")
        case True
        with eq inRange fired
        have "settingsLoop token (settingIndex - 1) settings n answers = Answered r n' rest"
          by simp
        from "1.IH" (1) [OF inRange fired True this] show ?thesis .
      next
        case False
        with eq inRange fired show ?thesis by simp
      qed
    next
      case notFired: False
      show ?thesis
      proof (cases answers)
        case Nil
        with eq inRange notFired show ?thesis by simp
      next
        case (Cons a list)
        show ?thesis
        proof (cases "resolveBoolean (snd (settingPrompts ! settingIndex)) a")
          case None
          show ?thesis
          proof (cases "settingIndex > 0")
            case True
            with eq inRange notFired Cons None
            have "settingsLoop token (settingIndex - 1) settings (Suc n) list = Answered r n' rest"
              by simp
            from "1.IH" (2) [OF inRange notFired Cons None True this] Cons
            show ?thesis by simp
          next
            case False
            with eq inRange notFired Cons None show ?thesis by simp
          qed
        next
          case (Some v)
          with eq inRange notFired Cons
          have "settingsLoop token (Suc settingIndex)
                  (setBoolField (fst (settingPrompts ! settingIndex)) v settings) (Suc n) list
                = Answered r n' rest"
            by simp
          from "1.IH" (3) [OF inRange notFired Cons Some this] Cons
          show ?thesis by simp
        qed
      qed
    qed
  qed
qed

lemma pickStep_Continue:
  assumes eq: "pickStep state step n items d answers body = Continue st' step' n' rest'"
      and body: "\<And>l rest. body l rest = Continue st' step' n' rest' \<Longrightarrow> length rest' \<le> length rest"
  shows "length rest' < length answers"
proof (cases answers)
  case Nil
  with eq show ?thesis by (simp add: pickStep_def)
next
  case (Cons a list)
  show ?thesis
  proof (cases "quickPick items (getCurrentStepNumber state step > 1) d a")
    case None
    with eq Cons show ?thesis by (simp add: pickStep_def afterPick_def)
  next
    case (Some l)
    show ?thesis
    proof (cases "l = backLabel")
      case True
      with eq Cons Some show ?thesis by (simp add: pickStep_def afterPick_def)
    next
      case False
      with eq Cons Some have "body l list = Continue st' step' n' rest'"
        by (simp add: pickStep_def afterPick_def)
      from body [OF this] Cons show ?thesis by simp
    qed
  qed
qed

lemma moveToPreviousStep_NAME: "moveToPreviousStep state NAME = OWNER"
  by (simp add: moveToPreviousStep_def getStepSequence_def baseSteps_def)

lemma stepOwner_progress:
  "stepOwner env state n answers = Continue st' step' n' rest \<Longrightarrow> length rest < length answers"
  by (auto simp: stepOwner_def Let_def split: list.splits option.splits)

lemma stepName_progress:
  "stepName env state n answers = Continue st' step' n' rest \<Longrightarrow>
     length rest < length answers \<or> (rest = answers \<and> step' = OWNER)"
  by (auto simp: stepName_def Let_def moveToPreviousStep_NAME
      split: if_splits asked.splits option.splits dest: validatedInput_shorter)

lemma stepDescription_progress:
  "stepDescription state n answers = Continue st' step' n' rest \<Longrightarrow> length rest < length answers"
  by (auto simp: stepDescription_def Let_def split: list.splits option.splits)

lemma stepVisibility_progress:
  "stepVisibility state n answers = Continue st' step' n' rest \<Longrightarrow> length rest < length answers"
  unfolding stepVisibility_def
  by (erule pickStep_Continue) (auto simp: Let_def split: option.splits)

lemma stepTemplate_progress:
  "stepTemplate state n answers = Continue st' step' n' rest \<Longrightarrow> length rest < length answers"
  unfolding stepTemplate_def
  by (erule pickStep_Continue) (auto simp: Let_def split: if_splits list.splits option.splits)

lemma stepReadme_progress:
  "stepReadme state n answers = Continue st' step' n' rest \<Longrightarrow> length rest < length answers"
  unfolding stepReadme_def
  by (erule pickStep_Continue) (auto simp: Let_def)

lemma stepLicense_progress:
  "stepLicense state n answers = Continue st' step' n' rest \<Longrightarrow> length rest < length answers"
  unfolding stepLicense_def
  by (erule pickStep_Continue) (auto simp: Let_def split: if_splits)

lemma stepIssue_progress:
  "stepIssue state n answers = Continue st' step' n' rest \<Longrightarrow> length rest < length answers"
  unfolding stepIssue_def
  by (erule pickStep_Continue) (auto simp: Let_def split: if_splits list.splits option.splits)

lemma stepBranch_progress:
  "stepBranch state n answers = Continue st' step' n' rest \<Longrightarrow>
     length rest < length answers \<or> (rest = answers \<and> step' = WORKSPACE)"
proof (cases "createIssue_s state = Some ''No''")
  case True
  assume "stepBranch state n answers = Continue st' step' n' rest"
  with True show ?thesis by (auto simp: stepBranch_def)
next
  case False
  assume "stepBranch state n answers = Continue st' step' n' rest"
  with False have "pickStep state BRANCH n [''Yes'', ''No''] ''Yes'' answers
        (\<lambda>l rest.
           let state1 = (if l \<in> set [''Yes'', ''No''] then state\<lparr>createBranch_s := Some l\<rparr>
                         else state)
           in if l = ''Yes''
              then (case validatedInput acceptBranchName (Suc n) rest of
                      NoAnswer \<Rightarrow> Open state1
                    | Answered None n' rest' \<Rightarrow> Continue state1 BRANCH n' rest'
                    | Answered (Some b) n' rest' \<Rightarrow>
                        (let state2 = state1\<lparr>branchName_s := Some b\<rparr>
                         in Continue state2 (getNextStep state2 BRANCH) n' rest'))
              else (let state2 = state1\<lparr>branchName_s := None\<rparr>
                    in Continue state2 (getNextStep state2 BRANCH) (Suc n) rest))
      = Continue st' step' n' rest"
    by (simp add: stepBranch_def)
  then have "length rest < length answers"
    by (rule pickStep_Continue)
       (auto simp: Let_def split: if_splits asked.splits option.splits
             dest!: validatedInput_shorter)
  then show ?thesis ..
qed

lemma stepWorkspace_progress:
  "stepWorkspace state n answers = Continue st' step' n' rest \<Longrightarrow> length rest < length answers"
  unfolding stepWorkspace_def
  by (erule pickStep_Continue) (auto simp: Let_def)

lemma stepAdvanced_progress:
  "stepAdvanced token state n answers = Continue st' step' n' rest \<Longrightarrow> length rest < length answers"
  unfolding stepAdvanced_def
  by (erule pickStep_Continue) (auto simp: Let_def split: if_splits asked.splits option.splits)

lemma stepBody_progress:
  assumes "stepBody env token state step n answers = Continue st' step' n' rest"
  shows "length rest < length answers \<or> (rest = answers \<and> rank step' < rank step)"
  using assms
  by (cases step)
     (auto simp: stepBody_def rank_def
           dest: stepOwner_progress stepName_progress stepDescription_progress
                 stepVisibility_progress stepTemplate_progress stepReadme_progress
                 stepLicense_progress stepIssue_progress stepBranch_progress
                 stepWorkspace_progress stepAdvanced_progress)

text \<open>
  The outcome of the wizard on the answers given: it has returned (\<open>null\<close> or the
  options), or it stands at a prompt of a step with no answer left. The token is read
  at the head of each iteration and again at the head of each step's block; no prompt is
  answered between the two reads, so the second reads as the first.
\<close>

datatype CreateOutcome = Finished "CreateRepoOptions option" | Asking StepState Step

function navigationLoop ::
  "WizardEnv \<Rightarrow> nat option \<Rightarrow> StepState \<Rightarrow> Step \<Rightarrow> nat \<Rightarrow> answer list \<Rightarrow> CreateOutcome" where
  "navigationLoop env token state currentStep n answers =
     (if currentStep = DONE then Finished None
      else if isCancellationRequested token n then Finished None
      else (case stepBody env token state currentStep n answers of
              Return r \<Rightarrow> Finished r
            | Open state' \<Rightarrow> Asking state' currentStep
            | Continue state' step' n' rest \<Rightarrow>
                navigationLoop env token state' step' n' rest))"
  by pat_completeness auto
termination
  by (relation "measures [\<lambda>(env, token, state, step, n, answers). length answers,
                          \<lambda>(env, token, state, step, n, answers). rank step]")
     (auto dest: stepBody_progress)

declare navigationLoop.simps [simp del]

definition collectUserInputs :: "WizardEnv \<Rightarrow> nat option \<Rightarrow> answer list \<Rightarrow> CreateOutcome" where
  "collectUserInputs env token answers =
     (if isCancellationRequested token 0 then Finished None
      else navigationLoop env token emptyState OWNER 0 answers)"

section \<open>commands/create.ts: createRepository\<close>

text \<open>
  The places where \<open>createRepository\<close> reads the cancellation token, in source order:
  before the dependency checks, before and after the wizard, before the existence check,
  before and after the create command, and at the head of the settings, issue, branch,
  clone and workspace stages.
\<close>

datatype Poll =
  AtDependencies | AtCollect | AfterCollect | AtExists | AtCreate | AfterCreate
  | AtSettings | AtIssue | AtBranch | AtClone | AtWorkspace

text \<open>
  What the external collaborators answer in a run: the token at each read, the dependency
  checks, the wizard's environment and answers, the existence check and the choice in its
  dialog, the deletion of an existing repository, the create command (success, cancelled,
  error output), the settings call, the issue (its number, or an error text), the branch
  calls (success, error text), the clone (path, error text), the scaffolding of the
  workspace (the path of the workspace file, or \<open>Inl\<close> of the message it throws), the
  opening of the folder (\<open>Some\<close> of the message it throws), and the rollback dialog and
  deletion.
\<close>

record CreateEnv =
  tokenAt :: "Poll \<Rightarrow> bool"
  ghCliInstalled :: bool
  ghAuthenticated :: bool
  wizardEnv :: WizardEnv
  createToken :: "nat option"
  createAnswers :: "answer list"
  existsAtCheck :: bool
  existsAction :: "string option"
  deleteExisting :: bool
  createSuccess :: bool
  createCancelled :: bool
  createStderr :: string
  settingsApi :: ghApi
  issueOutcome :: "int option \<times> string option"
  linkedBranchOutcome :: "bool \<times> string option"
  branchOutcome :: "bool \<times> string option"
  cloneOutcome :: "string option \<times> string option"
  scaffoldOutcome :: "string + string"
  openFolderOutcome :: "string option"
  rollbackAction :: "string option"
  rollbackDeleted :: bool

text \<open>\<open>a || b\<close> on strings, and an optional string inside a template literal.\<close>

definition orElse :: "string option \<Rightarrow> string \<Rightarrow> string" where
  "orElse s d = (case s of None \<Rightarrow> d | Some t \<Rightarrow> if t \<noteq> [] then t else d)"

definition interpolate :: "string option \<Rightarrow> string" where
  "interpolate s = (case s of None \<Rightarrow> ''undefined'' | Some t \<Rightarrow> t)"

definition handleCancellationAfterCreation :: "CreateEnv \<Rightarrow> string \<Rightarrow> event list" where
  "handleCancellationAfterCreation env fullRepoName =
     OfferRollback fullRepoName
     # (if rollbackAction env = Some ''Delete Repository''
        then GhCommand (''gh repo delete '' @ fullRepoName @ '' --yes'')
             # (if rollbackDeleted env
                then [ShowInformation (''Repository '' @ fullRepoName @ '' has been deleted.'')]
                else [ShowWarning (''Failed to delete repository '' @ fullRepoName
                        @ ''. You may need to delete it manually.'')])
        else [ShowInformation (''Repository '' @ fullRepoName @ '' has been kept.'')])"

text \<open>
  The stages of the orchestration, last first. Each takes the events so far and the errors
  collected so far, and gives the events and the collected errors of the whole run. Of the
  exceptions the outer \<open>try\<close> catches, the one thrown while the workspace is scaffolded
  is modelled.
\<close>

definition stageWorkspace ::
  "CreateEnv \<Rightarrow> CreateRepoOptions \<Rightarrow> string \<Rightarrow> string option \<Rightarrow> event list \<Rightarrow> string list \<Rightarrow>
   event list \<times> string list" where
  "stageWorkspace env options fullRepoName repoPath events errs =
     (if setupWorkspace_o options \<and> truthy repoPath
      then (if tokenAt env AtWorkspace then (events, errs)
            else (case scaffoldOutcome env of
                Inl msg \<Rightarrow>
                  (events @ [Scaffold (interpolate repoPath),
                             ShowError (''Error creating repository: '' @ msg)], errs)
              | Inr workspacePath \<Rightarrow>
                  (case openFolderOutcome env of
                     None \<Rightarrow>
                       (events @ [Scaffold (interpolate repoPath), OpenFolder workspacePath], errs)
                   | Some msg \<Rightarrow>
                       (let errs' = errs @ [''Failed to open workspace: '' @ msg]
                        in (events @ [Scaffold (interpolate repoPath), OpenFolder workspacePath,
                              if length errs' > 0
                              then ShowWarning (''Repository '' @ fullRepoName
                                     @ '' created successfully! Workspace file created at: ''
                                     @ workspacePath
                                     @ ''. You can open it manually. Some operations failed: ''
                                     @ joinWith '', '' errs')
                              else ShowInformation (''Repository '' @ fullRepoName
                                     @ '' created successfully! Workspace file created at: ''
                                     @ workspacePath @ ''. You can open it manually.'')],
                            errs')))))
      else (events @ [if length errs > 0
                      then ShowWarning (''Repository '' @ fullRepoName
                             @ '' created successfully, but some operations failed: ''
                             @ joinWith '', '' errs)
                      else ShowInformation (''Repository '' @ fullRepoName
                             @ '' created successfully!'')],
            errs))"

definition stageClone ::
  "CreateEnv \<Rightarrow> CreateRepoOptions \<Rightarrow> string \<Rightarrow> event list \<Rightarrow> string list \<Rightarrow>
   event list \<times> string list" where
  "stageClone env options fullRepoName events errs =
     (if setupWorkspace_o options
      then (if tokenAt env AtClone
            then (events @ handleCancellationAfterCreation env fullRepoName, errs)
            else (case cloneOutcome env of
                (path, err) \<Rightarrow>
                  if truthy path
                  then stageWorkspace env options fullRepoName path
                         (events @ [CloneRepository fullRepoName]) errs
                  else stageWorkspace env options fullRepoName None
                         (events @ [CloneRepository fullRepoName])
                         (errs @ [if truthy err
                                  then ''Failed to clone repository: '' @ interpolate err
                                  else ''Failed to clone repository for workspace setup''])))
      else stageWorkspace env options fullRepoName None events errs)"

text \<open>\<open>fullRepoName\<close> without a trailing \<open>.git\<close> and without a leading GitHub URL.\<close>

definition cleanRepoName :: "string \<Rightarrow> string" where
  "cleanRepoName fullRepoName =
     (let a = (if endsWith fullRepoName ''.git''
               then take (length fullRepoName - 4) fullRepoName else fullRepoName)
      in if startsWith a ''https://github.com/'' then drop 19 a
         else if startsWith a ''http://github.com/'' then drop 18 a
         else a)"

definition stageBranch ::
  "CreateEnv \<Rightarrow> CreateRepoOptions \<Rightarrow> string \<Rightarrow> int option \<Rightarrow> event list \<Rightarrow> string list \<Rightarrow>
   event list \<times> string list" where
  "stageBranch env options fullRepoName issueNumber events errs =
     (if createBranch_o options
      then (let validIssueNumber =
                  (case issueNumber of
                     None \<Rightarrow> None
                   | Some i \<Rightarrow> if i \<le> 0 then None else Some i);
                errs1 =
                  (case issueNumber of
                     None \<Rightarrow> errs
                   | Some i \<Rightarrow>
                       if i \<le> 0 then errs @ [''Invalid issue number: '' @ numberToString i]
                       else errs)
            in case validIssueNumber of
                 Some v \<Rightarrow>
                   if tokenAt env AtBranch
                   then (events @ handleCancellationAfterCreation env fullRepoName, errs1)
                   else (let branch = generateBranchName (Some v)
                                        (orElse (branchName_o options) ''first-release'');
                             branchValidation = validateBranchName branch
                         in if \<not> valid branchValidation
                            then stageClone env options fullRepoName events
                                   (errs1 @ [''Invalid branch name: ''
                                             @ interpolate (error branchValidation)])
                            else (case linkedBranchOutcome env of
                                (succeeded, err) \<Rightarrow>
                                  stageClone env options fullRepoName
                                    (events @ [IssueDevelop (cleanRepoName fullRepoName) v branch])
                                    (if \<not> succeeded
                                     then errs1 @ [''Failed to create branch: ''
                                                   @ orElse err ''Unknown error'']
                                     else errs1)))
               | None \<Rightarrow>
                   if tokenAt env AtBranch
                   then (events @ handleCancellationAfterCreation env fullRepoName, errs1)
                   else (let branch = orElse (branchName_o options) ''first-release'';
                             branchValidation = validateBranchName branch
                         in if \<not> valid branchValidation
                            then stageClone env options fullRepoName events
                                   (errs1 @ [''Invalid branch name: ''
                                             @ interpolate (error branchValidation)])
                            else (case branchOutcome env of
                                (succeeded, err) \<Rightarrow>
                                  stageClone env options fullRepoName
                                    (events @ [CreateBranch fullRepoName branch])
                                    (if \<not> succeeded
                                     then errs1 @ [''Failed to create branch: ''
                                                   @ orElse err ''Unknown error'']
                                     else errs1))))
      else stageClone env options fullRepoName events errs)"

definition stageIssue ::
  "CreateEnv \<Rightarrow> CreateRepoOptions \<Rightarrow> string \<Rightarrow> event list \<Rightarrow> string list \<Rightarrow>
   event list \<times> string list" where
  "stageIssue env options fullRepoName events errs =
     (if createIssue_o options
      then (if tokenAt env AtIssue
            then (events @ handleCancellationAfterCreation env fullRepoName, errs)
            else (let call = CreateIssue fullRepoName
                               (orElse (issueTitle_o options) ''First Release'')
                               (orElse (issueBody_o options) ''First Release'')
                  in case issueOutcome env of
                       (Some number, err) \<Rightarrow>
                         stageBranch env options fullRepoName (Some number) (events @ [call]) errs
                     | (None, err) \<Rightarrow>
                         stageBranch env options fullRepoName None (events @ [call])
                           (errs @ [if truthy err
                                    then ''Failed to create issue: '' @ interpolate err
                                    else ''Failed to create issue''])))
      else stageBranch env options fullRepoName None events errs)"

definition stageSettings ::
  "CreateEnv \<Rightarrow> CreateRepoOptions \<Rightarrow> string \<Rightarrow> event list \<Rightarrow> string list \<Rightarrow>
   event list \<times> string list" where
  "stageSettings env options fullRepoName events errs =
     (case settings_o options of
        Some s \<Rightarrow>
          if tokenAt env AtSettings
          then (events @ handleCancellationAfterCreation env fullRepoName, errs)
          else (case applyRepositorySettings (settingsApi env) fullRepoName s None of
              (settingsResult, calls) \<Rightarrow>
                stageIssue env options fullRepoName
                  (events @ map (\<lambda>(endpoint, verb, body). RemoteCall endpoint verb body) calls)
                  (if \<not> success settingsResult \<and> length (errors settingsResult) > 0
                   then errs @ errors settingsResult else errs))
      | None \<Rightarrow> stageIssue env options fullRepoName events errs)"

definition createCommand :: "CreateRepoOptions \<Rightarrow> string \<Rightarrow> string" where
  "createCommand options fullRepoName =
     ''gh repo create '' @ fullRepoName @ '' --'' @ visibilityString (visibility_o options)
     @ '' --description '' @ [CHR 0x22] @ description_o options @ [CHR 0x22]
     @ (if truthy (template_o options)
        then '' --template '' @ interpolate (template_o options)
        else (if addReadme_o options then '' --add-readme'' else [])
             @ (if truthy (license_o options) \<and> license_o options \<noteq> Some ''none''
                then '' --license '' @ interpolate (license_o options) else []))"

definition stageCreate ::
  "CreateEnv \<Rightarrow> CreateRepoOptions \<Rightarrow> string \<Rightarrow> event list \<Rightarrow> event list \<times> string list" where
  "stageCreate env options fullRepoName events =
     (if tokenAt env AtCreate then (events, [])
      else (let events1 = events @ [GhCommand (createCommand options fullRepoName)]
            in if createCancelled env \<or> tokenAt env AfterCreate
               then (events1 @ [ShowInformation ''Repository creation cancelled.''], [])
               else if \<not> createSuccess env
               then (events1 @ [ShowError (''Failed to create repository: ''
                                   @ createStderr env)], [])
               else stageSettings env options fullRepoName events1 []))"

definition stageExists ::
  "CreateEnv \<Rightarrow> CreateRepoOptions \<Rightarrow> string \<Rightarrow> event list \<times> string list" where
  "stageExists env options fullRepoName =
     (if tokenAt env AtExists then ([], [])
      else if existsAtCheck env
      then (if existsAction env = None \<or> existsAction env = Some [] 
               \<or> existsAction env = Some ''Skip''
            then ([ExistsDialog fullRepoName,
                   ShowInformation ''Repository creation cancelled.''], [])
            else if existsAction env = Some ''Delete and Recreate''
            then (if \<not> deleteExisting env
                  then ([ExistsDialog fullRepoName,
                         GhCommand (''gh repo delete '' @ fullRepoName @ '' --yes''),
                         ShowError ''Failed to delete existing repository.''], [])
                  else stageCreate env options fullRepoName
                         [ExistsDialog fullRepoName,
                          GhCommand (''gh repo delete '' @ fullRepoName @ '' --yes'')])
            else if existsAction env = Some ''Modify Existing''
            then ([ExistsDialog fullRepoName, ModifyExisting fullRepoName], [])
            else stageCreate env options fullRepoName [ExistsDialog fullRepoName])
      else stageCreate env options fullRepoName [])"

definition createRepository :: "CreateEnv \<Rightarrow> event list \<times> string list" where
  "createRepository env =
     (if tokenAt env AtDependencies then ([], [])
      else if \<not> ghCliInstalled env
      then ([ShowError (''GitHub CLI (gh) is not installed. ''
                @ ''Please install it from https://cli.github.com/'')], [])
      else if \<not> ghAuthenticated env
      then ([ShowError (''GitHub CLI is not authenticated. Please run: gh auth login''
                @ [CHR 0x0A]
                @ ''(You can use SSH keys by selecting the SSH option during authentication)'')],
            [])
      else if tokenAt env AtCollect then ([], [])
      else (case collectUserInputs (wizardEnv env) (createToken env) (createAnswers env) of
          Asking state step \<Rightarrow> ([AwaitAnswer], [])
        | Finished None \<Rightarrow> ([], [])
        | Finished (Some options) \<Rightarrow>
            if tokenAt env AfterCollect then ([], [])
            else (let repoValidation = validateRepoName (name_o options)
                  in if \<not> valid repoValidation
                     then ([ShowError (''Invalid repository name: ''
                               @ interpolate (error repoValidation))], [])
                     else stageExists env options
                            (if truthy (owner_o options)
                             then interpolate (owner_o options) @ ''/'' @ name_o options
                             else name_o options))))"


text \<open>A run used as an example: two of the four features are known remotely.\<close>

definition exampleCurrent :: RepositorySettings where
  "exampleCurrent = emptySettings\<lparr>description := Some ''demo'', visibility := Some Private,
     hasWiki := Some True, hasIssues := Some True\<rparr>"


definition exampleModifyEnv :: "RepositorySettings \<Rightarrow> answer list \<Rightarrow> ModifyEnv" where
  "exampleModifyEnv current answers =
     \<lparr>tokenAtFetch = False, fetchedSettings = Some current, tokenAtCollect = False,
      wizardToken = None, wizardAnswers = answers, tokenAtApply = False,
      executeGhApi = (\<lambda>endpoint verb body. GhResult True [])\<rparr>"

section \<open>The navigation policy in the words of the specification\<close>




text \<open>
  A creation run used as an example: the user \<open>octo\<close> creates \<open>octo/demo\<close>, every
  external call succeeds but for the issue outcome given, and the token reads as given.
\<close>

definition exampleWizardEnv :: WizardEnv where
  "exampleWizardEnv =
     \<lparr>currentUser = Some ''octo'', organizations = [], checkRepoExists = (\<lambda>fullRepoName. False)\<rparr>"

definition exampleCreateEnv ::
  "(Poll \<Rightarrow> bool) \<Rightarrow> answer list \<Rightarrow> int option \<times> string option \<Rightarrow> CreateEnv" where
  "exampleCreateEnv token answers issue =
     \<lparr>tokenAt = token, ghCliInstalled = True, ghAuthenticated = True,
      wizardEnv = exampleWizardEnv, createToken = None, createAnswers = answers,
      existsAtCheck = False, existsAction = None, deleteExisting = True,
      createSuccess = True, createCancelled = False, createStderr = [],
      settingsApi = (\<lambda>endpoint verb body. GhResult True []),
      issueOutcome = issue, linkedBranchOutcome = (True, None), branchOutcome = (True, None),
      cloneOutcome = (Some ''/home/octo/workspace/demo'', None),
      scaffoldOutcome = Inr ''/home/octo/workspace/demo/demo.code-workspace'',
      openFolderOutcome = None,
      rollbackAction = Some ''Delete Repository'', rollbackDeleted = True\<rparr>"

text \<open>The answers up to the issue step, and the two endings used below.\<close>

definition exampleBasics :: "answer list" where
  "exampleBasics =
     [Pick ''octo (Personal)'', Text ''demo'', Text ''A demo'', Pick ''Private'',
      Pick ''No'', Pick ''No'', Pick ''None'']"



definition exampleCreateCommand :: string where
  "exampleCreateCommand =
     ''gh repo create octo/demo --private --description '' @ [CHR 0x22] @ ''A demo''
     @ [CHR 0x22]"

text \<open>The rollback offers of a run, and their number as the token reads give it.\<close>

fun isOffer :: "event \<Rightarrow> bool" where
  "isOffer (OfferRollback fullRepoName) = True"
| "isOffer e = False"

definition offers :: "event list \<Rightarrow> nat" where
  "offers events = length (filter isOffer events)"

definition offersAfterCreate :: "CreateEnv \<Rightarrow> CreateRepoOptions \<Rightarrow> nat" where
  "offersAfterCreate env options =
     (if settings_o options \<noteq> None \<and> tokenAt env AtSettings then 1
      else if createIssue_o options \<and> tokenAt env AtIssue then 1
      else if createBranch_o options \<and> tokenAt env AtBranch then 1
      else if setupWorkspace_o options \<and> tokenAt env AtClone then 1
      else 0)"

section \<open>Properties of the validators\<close>

lemma trim_prefix: "\<exists>v. dropWhile isWhiteSpace s = trim s @ v"
proof -
  let ?t = "dropWhile isWhiteSpace s"
  have "rev ?t = takeWhile isWhiteSpace (rev ?t) @ dropWhile isWhiteSpace (rev ?t)"
    by simp
  then have "?t = rev (dropWhile isWhiteSpace (rev ?t)) @ rev (takeWhile isWhiteSpace (rev ?t))"
    by (metis rev_append rev_rev_ident)
  then show ?thesis unfolding trim_def by blast
qed

lemma trim_head: "trim s \<noteq> [] \<Longrightarrow> \<not> isWhiteSpace (hd (trim s))"
proof -
  assume ne: "trim s \<noteq> []"
  obtain v where v: "dropWhile isWhiteSpace s = trim s @ v"
    using trim_prefix by blast
  with ne have "dropWhile isWhiteSpace s \<noteq> []" by simp
  then have "\<not> isWhiteSpace (hd (dropWhile isWhiteSpace s))"
    by (rule hd_dropWhile)
  with v ne show ?thesis by simp
qed

lemma dropWhile_trim: "dropWhile isWhiteSpace (trim s) = trim s"
proof (cases "trim s")
  case Nil
  then show ?thesis by simp
next
  case (Cons c cs)
  with trim_head [of s] show ?thesis by simp
qed

lemma trim_idem: "trim (trim s) = trim s"
proof -
  have "dropWhile isWhiteSpace (rev (trim s)) = rev (trim s)"
    unfolding trim_def by (simp add: dropWhile_idem)
  then show ?thesis
    unfolding trim_def [of "trim s"] by (simp add: dropWhile_trim)
qed

lemma trim_Nil: "trim [] = []"
  by (simp add: trim_def)

lemma validateBranchName_trim: "validateBranchName (trim s) = validateBranchName s"
  by (cases "trim s = []") (auto simp: validateBranchName_def trim_idem trim_Nil)

lemma validateRepoName_trim: "validateRepoName (trim s) = validateRepoName s"
  by (cases "trim s = []") (auto simp: validateRepoName_def trim_idem trim_Nil)

text \<open>
  C9. \<open>generateBranchName(5, "feature")\<close> is \<open>"5-feature"\<close>,
  \<open>generateBranchName(undefined, "main")\<close> is \<open>"main"\<close>, and
  \<open>generateBranchName(0, "x")\<close> is \<open>"x"\<close>: an issue number of zero is treated
  as an absent one.
\<close>

theorem generateBranchName_examples:
  "generateBranchName (Some 5) ''feature'' = ''5-feature''
   \<and> generateBranchName None ''main'' = ''main''
   \<and> generateBranchName (Some 0) ''x'' = ''x''"
  by (simp add: generateBranchName_def numberToString_def digits.simps)

text \<open>
  C10. For every string \<open>s\<close>, \<open>validateRepoName\<close> and \<open>validateBranchName\<close> give on
  \<open>s\<close> the verdict they give on \<open>s.trim()\<close> (the whole result, the error text
  included), and a string that is empty or consists of white space only is rejected
  as empty by both.
\<close>

theorem validate_trim_invariant:
  "valid (validateRepoName s) = valid (validateRepoName (trim s))
   \<and> valid (validateBranchName s) = valid (validateBranchName (trim s))
   \<and> validateRepoName s = validateRepoName (trim s)
   \<and> validateBranchName s = validateBranchName (trim s)
   \<and> (trim s = [] \<longrightarrow>
        validateRepoName s = \<lparr>valid = False, error = Some ''Repository name cannot be empty''\<rparr>
        \<and> validateBranchName s = \<lparr>valid = False, error = Some ''Branch name cannot be empty''\<rparr>)"
  by (simp add: validateRepoName_trim validateBranchName_trim)
     (simp add: validateRepoName_def validateBranchName_def invalid_def)

theorem validate_trim_invariant_witness:
  "trim ''  '' = []
   \<and> validateRepoName ''  '' = \<lparr>valid = False, error = Some ''Repository name cannot be empty''\<rparr>
   \<and> validateBranchName ''  '' = \<lparr>valid = False, error = Some ''Branch name cannot be empty''\<rparr>
   \<and> valid (validateRepoName '' my-repo '') \<and> valid (validateRepoName ''my-repo'')"
proof -
  have t: "trim ''  '' = []"
    by (simp add: trim_def isWhiteSpace_def)
  have m: "trim '' my-repo '' = ''my-repo''"
    by (simp add: trim_def isWhiteSpace_def)
  have v: "valid (validateRepoName ''my-repo'')"
    by (simp add: validateRepoName_def trim_def isWhiteSpace_def startsWith_def endsWith_def
        testPattern_def repoChar_def ok_def invalid_def)
  have e: "validateRepoName ''  '' = \<lparr>valid = False, error = Some ''Repository name cannot be empty''\<rparr>
      \<and> validateBranchName ''  '' = \<lparr>valid = False, error = Some ''Branch name cannot be empty''\<rparr>"
    using validate_trim_invariant [of "''  ''"] t by blast
  have "valid (validateRepoName '' my-repo '') = valid (validateRepoName (trim '' my-repo ''))"
    using validate_trim_invariant [of "'' my-repo ''"] by blast
  with m v have "valid (validateRepoName '' my-repo '')" by simp
  with t e v show ?thesis by blast
qed


section \<open>Properties of the settings patch\<close>

lemma visibilityString_inj: "visibilityString a = visibilityString b \<longleftrightarrow> a = b"
  by (cases a; cases b) simp_all

lemma entry_changed:
  "entry ''description'' JString description s (Some c) = changedEntry s c KDescription"
  "entry ''visibility'' (JString \<circ> visibilityString) visibility s (Some c)
     = changedEntry s c KVisibility"
  "entry ''has_wiki'' JBool hasWiki s (Some c) = changedEntry s c KHasWiki"
  "entry ''has_issues'' JBool hasIssues s (Some c) = changedEntry s c KHasIssues"
  "entry ''has_projects'' JBool hasProjects s (Some c) = changedEntry s c KHasProjects"
  "entry ''has_discussions'' JBool hasDiscussions s (Some c) = changedEntry s c KHasDiscussions"
  "entry ''allow_squash_merge'' JBool allowSquashMerge s (Some c)
     = changedEntry s c KAllowSquashMerge"
  "entry ''allow_merge_commit'' JBool allowMergeCommit s (Some c)
     = changedEntry s c KAllowMergeCommit"
  "entry ''allow_rebase_merge'' JBool allowRebaseMerge s (Some c)
     = changedEntry s c KAllowRebaseMerge"
  "entry ''allow_auto_merge'' JBool allowAutoMerge s (Some c) = changedEntry s c KAllowAutoMerge"
  "entry ''delete_branch_on_merge'' JBool deleteBranchOnMerge s (Some c)
     = changedEntry s c KDeleteBranchOnMerge"
  "entry ''allow_update_branch'' JBool allowUpdateBranch s (Some c)
     = changedEntry s c KAllowUpdateBranch"
  "entry ''web_commit_signoff_required'' JBool webCommitSignoffRequired s (Some c)
     = changedEntry s c KWebCommitSignoffRequired"
  by (auto simp: changedEntry_def entry_def visibilityString_inj split: option.splits)

lemma buildApiSettings_keys:
  "buildApiSettings s (Some c) = concat (map (changedEntry s c) allKeys)"
  by (simp only: buildApiSettings_def allKeys_def entry_changed list.map concat.simps
        append_Nil2 append_assoc)

lemma allKeys_complete: "k \<in> set allKeys"
  by (cases k) (simp_all add: allKeys_def)

lemma set_allKeys: "set allKeys = UNIV"
  using allKeys_complete by blast

lemma in_changedEntry:
  "x \<in> set (changedEntry s c k) \<longleftrightarrow>
     (\<exists>v. x = (apiName k, v) \<and> settingValue k s = Some v \<and> settingValue k c \<noteq> Some v)"
  by (auto simp: changedEntry_def split: option.splits)

lemma patch_entries:
  "set (buildApiSettings s (Some c)) =
     {(apiName k, v) | k v. settingValue k s = Some v \<and> settingValue k c \<noteq> Some v}"
  by (auto simp: buildApiSettings_keys in_changedEntry set_allKeys)

lemma apiName_inj: "apiName a = apiName b \<longleftrightarrow> a = b"
  by (cases a; cases b) simp_all

lemma changedEntry_fst: "x \<in> set (changedEntry s c k) \<Longrightarrow> fst x = apiName k"
  by (auto simp: changedEntry_def split: option.splits if_splits)

lemma distinct_changedEntry: "distinct (map fst (changedEntry s c k))"
  by (auto simp: changedEntry_def split: option.splits)

lemma distinct_concat_keys:
  "distinct ks \<Longrightarrow> distinct (map fst (concat (map (changedEntry s c) ks)))"
proof (induction ks)
  case Nil
  then show ?case by simp
next
  case (Cons k ks)
  have "fst ` set (changedEntry s c k) \<inter> fst ` (\<Union>k' \<in> set ks. set (changedEntry s c k')) = {}"
    using Cons.prems by (auto dest!: changedEntry_fst simp: apiName_inj)
  with Cons show ?case
    by (simp add: distinct_changedEntry)
qed

lemma patch_keys_distinct: "distinct (map fst (buildApiSettings s (Some c)))"
  unfolding buildApiSettings_keys
  by (rule distinct_concat_keys) (simp add: allKeys_def)

lemma patch_lookup:
  "map_of (buildApiSettings s (Some c)) (apiName k) =
     (if settingValue k c \<noteq> settingValue k s then settingValue k s else None)"
proof (cases "settingValue k s")
  case None
  have "apiName k \<notin> fst ` set (buildApiSettings s (Some c))"
    using None by (auto simp: patch_entries apiName_inj)
  then show ?thesis using None by (simp add: map_of_eq_None_iff)
next
  case (Some v)
  show ?thesis
  proof (cases "settingValue k c = Some v")
    case True
    have "apiName k \<notin> fst ` set (buildApiSettings s (Some c))"
      using True Some by (auto simp: patch_entries apiName_inj)
    then show ?thesis using Some True by (simp add: map_of_eq_None_iff)
  next
    case False
    have "(apiName k, v) \<in> set (buildApiSettings s (Some c))"
      using Some False by (auto simp: patch_entries)
    then show ?thesis using Some False
      by (simp add: patch_keys_distinct)
  qed
qed








section \<open>Properties of the step sequencer\<close>

text \<open>
  C8. For every wizard state of the creation flow and every category of the modification
  flow, the computed step sequence has no step twice and holds the terminal step exactly
  once, as its last element.
\<close>

theorem step_sequences_distinct:
  "distinct (getStepSequence state)
   \<and> count_list (getStepSequence state) DONE = 1
   \<and> last (getStepSequence state) = DONE
   \<and> distinct (getStepSequence_modify category)
   \<and> count_list (getStepSequence_modify category) MODIFY_DONE = 1
   \<and> last (getStepSequence_modify category) = MODIFY_DONE"
  by (simp add: getStepSequence_def baseSteps_def getStepSequence_modify_def)





section \<open>Properties of the creation wizard\<close>

lemma stepNumber_base:
  "step \<in> set [NAME, DESCRIPTION, VISIBILITY, TEMPLATE, ISSUE, BRANCH, WORKSPACE, ADVANCED] \<Longrightarrow>
     getCurrentStepNumber state step > 1"
  by (auto simp: getCurrentStepNumber_def getStepSequence_def baseSteps_def Let_def)

lemma quickPick_item:
  "l \<in> set items \<Longrightarrow> l \<noteq> backLabel \<Longrightarrow> quickPick items canGoBack d (Pick l) = Some l"
  by (simp add: quickPick_def addBackOption_def)

lemma quickPick_back:
  "d \<in> set items \<Longrightarrow> quickPick items True d (Pick backLabel) = Some d"
  by (simp add: quickPick_def addBackOption_def)

lemma backLabel_neq [simp]:
  "''Yes'' \<noteq> backLabel" "''No'' \<noteq> backLabel" "backLabel \<noteq> ''Yes''" "backLabel \<noteq> ''No''"
  by (simp_all add: backLabel_def)


lemma template_no:
  "stepTemplate state n (Pick ''No'' # rest) =
     Continue (state\<lparr>useTemplate := Some ''No'', template_s := None\<rparr>) README (Suc n) rest"
  by (simp add: stepTemplate_def pickStep_def afterPick_def quickPick_item)


lemma sequence_with_template:
  "truthy (template_s state) \<Longrightarrow>
     README \<notin> set (getStepSequence state) \<and> LICENSE \<notin> set (getStepSequence state)"
  by (simp add: getStepSequence_def baseSteps_def)

lemma sequence_without_template:
  "\<not> truthy (template_s state) \<Longrightarrow>
     README \<in> set (getStepSequence state) \<and> LICENSE \<in> set (getStepSequence state)"
  by (simp add: getStepSequence_def baseSteps_def)

text \<open>
  In the quick picks of the steps the back item, once accepted, is read as the default
  item: the resolved label is never the back label, and the branch of the step that calls
  \<open>moveToPreviousStep\<close> is not taken. The boolean prompts of the advanced settings, in
  the same wizard, read the back item as such and step back one setting.
\<close>

lemma quickPick_never_back:
  "d \<in> set items \<Longrightarrow> d \<noteq> backLabel \<Longrightarrow> quickPick items canGoBack d a \<noteq> Some backLabel"
  by (auto simp: quickPick_def addBackOption_def split: answer.splits)


lemma branch_back_item:
  "createIssue_s state \<noteq> Some ''No'' \<Longrightarrow>
     stepBranch state n (Pick backLabel # rest) = stepBranch state n (Pick ''Yes'' # rest)"
  by (simp add: stepBranch_def pickStep_def quickPick_back quickPick_item stepNumber_base)



lemma setting_back_steps_back:
  "settingsLoop None (Suc 0) settings n (Pick backLabel # rest)
     = settingsLoop None 0 settings (Suc n) rest"
  by (subst settingsLoop.simps)
     (simp add: settingPrompts_def resolveBoolean_def isCancellationRequested_def)




















section \<open>Properties of the orchestration\<close>

text \<open>
  Where the rollback is offered: once, at the first stage after a successful create that
  runs and reads the token as fired at its head (settings, issue, branch, clone). The
  read after the create command and the read at the head of the workspace stage return
  without an offer.
\<close>

lemma offers_append [simp]: "offers (a @ b) = offers a + offers b"
  by (simp add: offers_def)

lemma offers_Nil [simp]: "offers [] = 0"
  by (simp add: offers_def)

lemma offers_Cons [simp]: "offers (e # es) = (if isOffer e then 1 else 0) + offers es"
  by (simp add: offers_def)

lemma offers_handle [simp]: "offers (handleCancellationAfterCreation env fullRepoName) = 1"
  by (simp add: handleCancellationAfterCreation_def)

lemma offers_calls [simp]:
  "offers (map (\<lambda>(endpoint, verb, body). RemoteCall endpoint verb body) calls) = 0"
  by (induction calls) auto

lemma stageWorkspace_offers:
  "offers (fst (stageWorkspace env options fullRepoName repoPath events errs)) = offers events"
  by (simp add: stageWorkspace_def Let_def split: sum.split option.split)

lemma stageClone_offers:
  "offers (fst (stageClone env options fullRepoName events errs)) =
     offers events + (if setupWorkspace_o options \<and> tokenAt env AtClone then 1 else 0)"
  by (simp add: stageClone_def stageWorkspace_offers split: prod.split)

lemma stageBranch_offers:
  "offers (fst (stageBranch env options fullRepoName issueNumber events errs)) =
     offers events
     + (if createBranch_o options \<and> tokenAt env AtBranch then 1
        else if setupWorkspace_o options \<and> tokenAt env AtClone then 1 else 0)"
  by (simp add: stageBranch_def stageClone_offers Let_def split: prod.split option.split)

lemma stageIssue_offers:
  "offers (fst (stageIssue env options fullRepoName events errs)) =
     offers events
     + (if createIssue_o options \<and> tokenAt env AtIssue then 1
        else if createBranch_o options \<and> tokenAt env AtBranch then 1
        else if setupWorkspace_o options \<and> tokenAt env AtClone then 1 else 0)"
  by (simp add: stageIssue_def stageBranch_offers Let_def split: prod.split option.split)

lemma stageSettings_offers:
  "offers (fst (stageSettings env options fullRepoName events errs)) =
     offers events + offersAfterCreate env options"
  by (simp add: stageSettings_def stageIssue_offers offersAfterCreate_def
        split: prod.split option.split)

lemma stageCreate_offers:
  "offers (fst (stageCreate env options fullRepoName events)) =
     offers events
     + (if \<not> tokenAt env AtCreate \<and> \<not> createCancelled env \<and> \<not> tokenAt env AfterCreate
           \<and> createSuccess env
        then offersAfterCreate env options else 0)"
  by (simp add: stageCreate_def stageSettings_offers Let_def)

lemma stageExists_offers:
  "offers (fst (stageExists env options fullRepoName)) \<le> offersAfterCreate env options"
  by (simp add: stageExists_def stageCreate_offers)

lemma offersAfterCreate_le: "offersAfterCreate env options \<le> 1"
  by (simp add: offersAfterCreate_def)

lemma rollback_offered_at_most_once: "offers (fst (createRepository env)) \<le> 1"
proof -
  have "offers (fst (stageExists env options fullRepoName)) \<le> 1" for options fullRepoName
    using stageExists_offers [of env options fullRepoName] offersAfterCreate_le [of env options]
    by simp
  then show ?thesis
    by (simp add: createRepository_def Let_def split: CreateOutcome.split option.split)
qed

lemma no_rollback_without_create:
  "\<not> createSuccess env \<or> createCancelled env \<or> tokenAt env AtCreate \<or> tokenAt env AfterCreate
     \<Longrightarrow> offers (fst (createRepository env)) = 0"
  by (auto simp: createRepository_def stageExists_def stageCreate_offers Let_def
           split: CreateOutcome.split option.split)

lemma create_failure_is_fatal:
  "\<not> tokenAt env AtCreate \<Longrightarrow> \<not> createCancelled env \<Longrightarrow> \<not> tokenAt env AfterCreate \<Longrightarrow>
   \<not> createSuccess env \<Longrightarrow>
     stageCreate env options fullRepoName events =
       (events @ [GhCommand (createCommand options fullRepoName),
                  ShowError (''Failed to create repository: '' @ createStderr env)], [])"
  by (simp add: stageCreate_def)

text \<open>
  C1. The claim: cancellation observed at any point after the create call has succeeded
  leads to exactly one keep-or-delete offer, and cancellation observed before to none.
  The code at a run where it fails: workspace setup is requested, the create command and
  the clone succeed, and the token fires while the clone runs, so that it reads false at
  the head of the clone stage and true at the head of the workspace stage. The run ends
  there in silence: no rollback is offered for the repository created. When the token
  has fired one read earlier, the offer is made and the delete command runs.
\<close>

theorem cancel_at_workspace_no_rollback:
  "createRepository (exampleCreateEnv (\<lambda>p. p = AtWorkspace)
       (exampleBasics @ [Pick ''No'', Pick ''Yes'', Pick ''No'']) (None, None))
     = ([GhCommand exampleCreateCommand, CloneRepository ''octo/demo''], [])
   \<and> createRepository (exampleCreateEnv (\<lambda>p. p = AtClone \<or> p = AtWorkspace)
       (exampleBasics @ [Pick ''No'', Pick ''Yes'', Pick ''No'']) (None, None))
     = ([GhCommand exampleCreateCommand, OfferRollback ''octo/demo'',
         GhCommand ''gh repo delete octo/demo --yes'',
         ShowInformation ''Repository octo/demo has been deleted.''], [])"
  by code_simp

text \<open>
  C7. The claim: a failure in a stage after a successful create is collected and does not
  stop the later stages, all collected errors are reported in one aggregated warning, and
  a failed create is fatal. The code at a run where it fails: the issue cannot be created,
  workspace setup is requested, and the clone, the scaffolding and the opening of the
  folder succeed. The error is collected and the later stages run, but the run ends
  without any message: the collected error is never shown. The same failure without
  workspace setup ends in the aggregated warning.
\<close>

theorem errors_dropped_when_workspace_opens:
  "createRepository (exampleCreateEnv (\<lambda>p. False)
       (exampleBasics @ [Pick ''Yes'', Text ''First Release'', Text ''Notes'', Pick ''No'',
          Pick ''Yes'', Pick ''No''])
       (None, Some ''Issues are disabled''))
     = ([GhCommand exampleCreateCommand,
         CreateIssue ''octo/demo'' ''First Release'' ''Notes'',
         CloneRepository ''octo/demo'', Scaffold ''/home/octo/workspace/demo'',
         OpenFolder ''/home/octo/workspace/demo/demo.code-workspace''],
        [''Failed to create issue: Issues are disabled''])
   \<and> createRepository (exampleCreateEnv (\<lambda>p. False)
       (exampleBasics @ [Pick ''Yes'', Text ''First Release'', Text ''Notes'', Pick ''No'',
          Pick ''No'', Pick ''No''])
       (None, Some ''Issues are disabled''))
     = ([GhCommand exampleCreateCommand,
         CreateIssue ''octo/demo'' ''First Release'' ''Notes'',
         ShowWarning (''Repository octo/demo created successfully, but some operations ''
           @ ''failed: Failed to create issue: Issues are disabled'')],
        [''Failed to create issue: Issues are disabled''])"
  by code_simp

section \<open>Backing out of a sub-flow\<close>

text \<open>
  In the creation flow, whenever the loop over the advanced settings is left at its first
  prompt, the advanced step returns what it returns on the answer \<open>No\<close>: nothing entered
  in the loop remains.
\<close>

lemma advanced_back_is_no:
  assumes "settingsLoop token 0 emptySettings (Suc n) rest = Answered None k rest'"
  shows "stepAdvanced token state n (Pick ''Yes'' # rest)
           = Return (buildOptions (state\<lparr>advancedConfig := Some ''No'', settings_s := None\<rparr>))"
    and "stepAdvanced token state n (Pick ''No'' # others)
           = Return (buildOptions (state\<lparr>advancedConfig := Some ''No'', settings_s := None\<rparr>))"
  using assms
  by (simp_all add: stepAdvanced_def pickStep_def afterPick_def quickPick_item Let_def)

lemma settings_back_at_first:
  assumes "\<not> isCancellationRequested token k" and "resolveBoolean True a = None"
  shows "settingsLoop token 0 emptySettings k (a # rest) = Answered None (Suc k) rest"
  using assms
  by (subst settingsLoop.simps) (simp add: settingPrompts_def)

text \<open>
  C5. The claim: back on the first step of a sub-flow leaves the wizard state as if the
  sub-flow had never been entered. The code of the modification flow at a run where it
  fails: the user picks Features, answers \<open>No\<close> for the wiki, goes back from the issues
  step and back again from the wiki step, the first step of the sub-flow. The wizard
  stands at the category step again with the wiki answer still in the modifications (a
  run that never entered has none), and after General Settings and one answer it returns
  both fields, so that the PATCH carries \<open>has_wiki\<close>.
\<close>

theorem modify_back_keeps_values:
  "collectModifications exampleCurrent None
       [Pick ''Features'', Pick ''No'', Pick backLabel, Pick backLabel]
     = Prompting (emptySettings\<lparr>hasWiki := Some False\<rparr>) (Some ''features'') CATEGORY
   \<and> collectModifications exampleCurrent None [] = Prompting emptySettings None CATEGORY
   \<and> collectModifications exampleCurrent None
       [Pick ''Features'', Pick ''No'', Pick backLabel, Pick backLabel,
        Pick ''General Settings'', Pick ''No'']
     = Collected (Some (emptySettings\<lparr>hasWiki := Some False,
                          webCommitSignoffRequired := Some False\<rparr>))
   \<and> collectModifications exampleCurrent None [Pick ''General Settings'', Pick ''No'']
     = Collected (Some (emptySettings\<lparr>webCommitSignoffRequired := Some False\<rparr>))
   \<and> modifyRepository (exampleModifyEnv exampleCurrent
         [Pick ''Features'', Pick ''No'', Pick backLabel, Pick backLabel,
          Pick ''General Settings'', Pick ''No'']) ''octo/demo''
     = [RemoteCall ''repos/octo/demo'' ''PATCH''
          [(''has_wiki'', JBool False), (''web_commit_signoff_required'', JBool False)],
        ShowInformation ''Repository octo/demo modified successfully.'']"
  by code_simp

end
